theory Spec2Isabelle
  imports Main "HOL-Library.AList"
begin

section \<open>Python values, exceptions and string built-ins\<close>

text \<open>
  The two programs are Python scripts: \<^verbatim>\<open>bin/route_globus_v3.py\<close> (the router) and
  \<^verbatim>\<open>bin/get_endpoints.py\<close> (the endpoint diff tool). An exception that a statement
  raises is a value \<open>Inl e\<close> of the sum type \<open>exn + 'a\<close>; a \<^verbatim>\<open>try/except\<close> block is a
  case distinction on that value.
\<close>

datatype exn =
    AttributeError | IndexError | KeyError | NameError | TypeError
  | UnboundLocalError | ValueError | IOError
  | DoesNotExist | NotFoundError | DataError
  | SystemExit nat

text \<open>The result of \<^verbatim>\<open>urllib.parse.urlparse\<close>: the attributes the router reads.\<close>

record url =
  scheme :: string
  hostname :: string
  path :: string
  geturl :: string

text \<open>
  Values as \<^verbatim>\<open>json.loads\<close> and the configuration produce them. A dictionary keeps its
  insertion order, so it is an association list with distinct keys; floats are left out.
  \<open>PUrl\<close> is a parsed URL, as \<^verbatim>\<open>Setup\<close> stores it in a step configuration.
  \<open>PResponse\<close> is a \<^verbatim>\<open>globus_sdk\<close> response object around a JSON object: it answers
  \<^verbatim>\<open>item['id']\<close> and \<^verbatim>\<open>item.get('id')\<close> as the dictionary does, and it alone has the attribute
  \<^verbatim>\<open>item.data\<close>.
\<close>

datatype pyval =
    PNone
  | PBool bool
  | PInt int
  | PStr string
  | PList "pyval list"
  | PDict "(string \<times> pyval) list"
  | PUrl url
  | PResponse "(string \<times> pyval) list"

text \<open>\<^verbatim>\<open>s.rstrip(c)\<close> for a one-character argument: every trailing \<open>c\<close> goes.\<close>

definition rstrip :: "char \<Rightarrow> string \<Rightarrow> string" where
  "rstrip c s = rev (dropWhile (\<lambda>x. x = c) (rev s))"

text \<open>\<^verbatim>\<open>sep.join(xs)\<close> on strings.\<close>

fun join :: "string \<Rightarrow> string list \<Rightarrow> string" where
  "join sep [] = []"
| "join sep [x] = x"
| "join sep (x # y # ys) = x @ sep @ join sep (y # ys)"

text \<open>\<^verbatim>\<open>sep.join(xs)\<close> on arbitrary values: an item that is not a string is a TypeError.\<close>

fun strings_of :: "pyval list \<Rightarrow> exn + string list" where
  "strings_of [] = Inr []"
| "strings_of (PStr s # vs) =
     (case strings_of vs of Inl e \<Rightarrow> Inl e | Inr ss \<Rightarrow> Inr (s # ss))"
| "strings_of (_ # vs) = Inl TypeError"

definition join_values :: "string \<Rightarrow> pyval list \<Rightarrow> exn + string" where
  "join_values sep vs =
     (case strings_of vs of Inl e \<Rightarrow> Inl e | Inr ss \<Rightarrow> Inr (join sep ss))"

text \<open>\<^verbatim>\<open>for item in v\<close>: a list gives its items, a dictionary its keys, a string its
  characters; nothing else that JSON produces can be iterated.\<close>

fun iterate :: "pyval \<Rightarrow> exn + pyval list" where
  "iterate (PList xs) = Inr xs"
| "iterate (PDict kvs) = Inr (map (\<lambda>kv. PStr (fst kv)) kvs)"
| "iterate (PStr s) = Inr (map (\<lambda>c. PStr [c]) s)"
| "iterate _ = Inl TypeError"

text \<open>\<^verbatim>\<open>v[k]\<close> for a string \<open>k\<close>: only a dictionary, or a response object around one, can
  be indexed by a string.\<close>

fun getitem :: "pyval \<Rightarrow> string \<Rightarrow> exn + pyval" where
  "getitem (PDict kvs) k = (case map_of kvs k of None \<Rightarrow> Inl KeyError | Some v \<Rightarrow> Inr v)"
| "getitem (PResponse kvs) k = (case map_of kvs k of None \<Rightarrow> Inl KeyError | Some v \<Rightarrow> Inr v)"
| "getitem _ k = Inl TypeError"

text \<open>\<^verbatim>\<open>v.get(k)\<close>: \<^verbatim>\<open>None\<close> for a missing key; only the two kinds of record have the
  method.\<close>

fun get_method :: "pyval \<Rightarrow> string \<Rightarrow> exn + pyval" where
  "get_method (PDict kvs) k = (case map_of kvs k of None \<Rightarrow> Inr PNone | Some v \<Rightarrow> Inr v)"
| "get_method (PResponse kvs) k = (case map_of kvs k of None \<Rightarrow> Inr PNone | Some v \<Rightarrow> Inr v)"
| "get_method _ k = Inl AttributeError"

text \<open>
  A value used as a dictionary key: lists and dictionaries are unhashable (TypeError),
  and \<^verbatim>\<open>True\<close> and \<^verbatim>\<open>False\<close> are the same keys as 1 and 0.
\<close>

fun dict_key :: "pyval \<Rightarrow> exn + pyval" where
  "dict_key (PList xs) = Inl TypeError"
| "dict_key (PDict kvs) = Inl TypeError"
| "dict_key (PBool b) = Inr (PInt (if b then 1 else 0))"
| "dict_key v = Inr v"

text \<open>A dictionary whose order does not matter is a map; a missing key is a KeyError.\<close>

type_synonym dict = "string \<rightharpoonup> pyval"

definition subscript :: "dict \<Rightarrow> string \<Rightarrow> exn + pyval" where
  "subscript d k = (case d k of None \<Rightarrow> Inl KeyError | Some v \<Rightarrow> Inr v)"

section \<open>The router: \<^verbatim>\<open>Router.format_GLOBALURN\<close>\<close>

text \<open>
  \<^verbatim>\<open>
  def format_GLOBALURN(self, *args):
      newargs = list(args)
      newargs[0] = newargs[0].rstrip(':')
      return(':'.join(newargs))
  \<close>
  \<^verbatim>\<open>newargs[0]\<close> of an empty list is an IndexError; only a string has \<^verbatim>\<open>rstrip\<close>.
\<close>

fun format_GLOBALURN :: "pyval list \<Rightarrow> exn + string" where
  "format_GLOBALURN [] = Inl IndexError"
| "format_GLOBALURN (PStr s # rest) = join_values '':'' (PStr (rstrip CHR '':'' s) # rest)"
| "format_GLOBALURN (_ # rest) = Inl AttributeError"

text \<open>
  The identifier \<^verbatim>\<open>Write_Globus_Collections\<close> computes for an incoming record (line 477):
  \<^verbatim>\<open>myGLOBALURN = self.format_GLOBALURN(config['URNPREFIX'], 'globusuuid', item['id'])\<close>.
  The step configuration is a dictionary. A missing key is a KeyError.
\<close>

definition myGLOBALURN :: "dict \<Rightarrow> pyval \<Rightarrow> exn + string" where
  "myGLOBALURN config item =
     (case subscript config ''URNPREFIX'' of
        Inl e \<Rightarrow> Inl e
      | Inr prefix \<Rightarrow>
          (case getitem item ''id'' of
             Inl e \<Rightarrow> Inl e
           | Inr native \<Rightarrow> format_GLOBALURN [prefix, PStr ''globusuuid'', native]))"

section \<open>The router's state\<close>

text \<open>
  The router logs through \<^verbatim>\<open>self.logger\<close>. Each call site is one constructor, with the
  values the message is formatted from. The last constructor is the line
  \<^verbatim>\<open>'{} deleted ID={}'\<close> of \<^verbatim>\<open>Delete_OLD\<close> when the caller names itself by a content
  envelope and not by a string.
\<close>

datatype event =
    Error_deleting_Elastic exn string
  | Error_deleting_ID exn string
  | Info_deleted string string
  | Error_saving_local exn string
  | Error_saving_resource exn string
  | Debug_updated string string
  | Info_processed string nat nat nat
  | Debug_HTTP_GET string
  | Debug_HTTP_RESP
  | Error_not_JSON
  | Info_wrote_file string
  | Info_read_file string
  | Error_parsing_file string
  | Error_step string
  | Error_exiting nat
  | Info_iteration
  | Info_deleted_by "(string \<times> pyval) list" string

text \<open>
  Rows of the warehouse tables \<^verbatim>\<open>ResourceV3Local\<close>, \<^verbatim>\<open>ResourceV3\<close> and
  \<^verbatim>\<open>ResourceV3Relation\<close>, with the fields the router sets. Timestamps are left out, and
  so are the three fields of \<^verbatim>\<open>ResourceV3\<close> that hold rendered text (\<open>Name\<close>,
  \<open>ShortDescription\<close>, \<open>Description\<close>). \<open>local_CatalogMetaURL\<close> holds the catalog
  identifier that \<^verbatim>\<open>CATALOGURN_to_URL\<close> formats into the URL.
\<close>

record local_row =
  local_ID :: string
  local_Affiliation :: string
  local_LocalID :: pyval
  local_LocalType :: pyval
  local_LocalURL :: string
  local_CatalogMetaURL :: pyval
  local_EntityJSON :: "(string \<times> pyval) list"

record resource_row =
  resource_ID :: string
  resource_Affiliation :: string
  resource_LocalID :: pyval
  resource_QualityLevel :: string
  resource_ResourceGroup :: string
  resource_Type :: string
  resource_Keywords :: string
  resource_Audience :: string

record relation_row =
  relation_ID :: string
  FirstResourceID :: string
  SecondResourceID :: string
  RelationType :: string

text \<open>
  A file, by what the router reads of it: its lines (\<^verbatim>\<open>read().splitlines()\<close>) and the
  value \<^verbatim>\<open>json.loads\<close> gives for its text, if it is JSON at all.
\<close>

record disk_file =
  file_lines :: "string list"
  file_json :: "pyval option"

text \<open>
  The attributes of the \<^verbatim>\<open>Router\<close> object that the modelled methods read or write,
  followed by the warehouse tables and the search index they act on, and by the outside
  world: the web (what the \<open>n\<close>-th request of the process would be answered, for a host
  and path: a connection error, a body that is not JSON, or a JSON value), the requests
  sent so far, the collections the transfer service lists, the files, and the processing
  activities recorded with \<^verbatim>\<open>FinishActivity\<close>. \<open>ESEARCH\<close> says whether a search index is
  configured; \<open>daemon\<close> is the command-line option \<^verbatim>\<open>--daemon\<close> (\<^verbatim>\<open>self.args.daemon\<close>);
  \<open>STATS\<close> is a \<^verbatim>\<open>collections.Counter\<close>, which answers 0 for a key it has never counted.
\<close>

record state =
  config :: dict
  ESEARCH :: bool
  Affiliation :: string
  CATALOGS :: "string \<rightharpoonup> dict"
  STEPS :: "dict list"
  memory :: "string \<rightharpoonup> (pyval \<rightharpoonup> pyval)"
  GLOBUS_NAME_URNMAP :: "pyval \<rightharpoonup> string"
  HTTP_CACHE :: "string \<rightharpoonup> pyval"
  URL_USE_COUNT :: "pyval \<rightharpoonup> nat"
  STATS :: "string \<Rightarrow> nat"
  logger :: "event list"
  ResourceV3Local :: "local_row list"
  ResourceV3 :: "resource_row list"
  ResourceV3Relation :: "relation_row list"
  ResourceV3Index :: "string list"
  web :: "string \<times> string \<Rightarrow> nat \<Rightarrow> exn + pyval option"
  requests :: "(string \<times> string) list"
  collections :: "exn + pyval list"
  files :: "string \<rightharpoonup> disk_file"
  activities :: "(string \<times> pyval \<times> string) list"
  daemon :: bool

text \<open>\<^verbatim>\<open>self.STATS.update({key})\<close>: one more occurrence of \<open>key\<close>.\<close>

definition count_up :: "string \<Rightarrow> state \<Rightarrow> state" where
  "count_up key self = self\<lparr>STATS := (STATS self)(key := Suc (STATS self key))\<rparr>"

definition log_event :: "event \<Rightarrow> state \<Rightarrow> state" where
  "log_event e self = self\<lparr>logger := logger self @ [e]\<rparr>"

text \<open>
  \<^verbatim>\<open>
  def exit(self, rc):
      if rc:
          self.logger.error('Exiting with rc={}'.format(rc))
      sys.exit(rc)
  \<close>
\<close>

definition exit_router :: "nat \<Rightarrow> state \<Rightarrow> state \<times> (exn + 'a)" where
  "exit_router rc self =
     ((if rc \<noteq> 0 then log_event (Error_exiting rc) self else self), Inl (SystemExit rc))"

text \<open>
  A router that has counted, cached and stored nothing, over empty warehouse tables,
  with an empty configuration, no file, no collection and a web that answers every
  request with the empty JSON list.
\<close>

definition Counter :: "string \<Rightarrow> nat" where
  "Counter = (\<lambda>key. 0)"

definition fresh :: state where
  "fresh = \<lparr>config = Map.empty, ESEARCH = False, Affiliation = ''xsede.org'',
     CATALOGS = Map.empty, STEPS = [], memory = Map.empty,
     GLOBUS_NAME_URNMAP = Map.empty, HTTP_CACHE = Map.empty, URL_USE_COUNT = Map.empty,
     STATS = Counter, logger = [], ResourceV3Local = [], ResourceV3 = [],
     ResourceV3Relation = [], ResourceV3Index = [],
     web = (\<lambda>request n. Inr (Some (PList []))), requests = [], collections = Inr [],
     files = Map.empty, activities = [], daemon = False\<rparr>"

section \<open>The router: \<^verbatim>\<open>Router.Write_MEMORY\<close>\<close>

text \<open>
  \<^verbatim>\<open>
  def Write_MEMORY(self, content, contype, conkey):
      # Stores in a dictionary for reference by other processing steps
      if contype not in self.memory:
          self.memory[contype] = {}
      for item in content[contype]:
          try:
              self.memory[contype][item[conkey]] = item
          except:
              pass
      return(0, '')
  \<close>
  \<open>memory_store\<close> is the loop, on the table \<^verbatim>\<open>self.memory[contype]\<close>.
\<close>

fun memory_store :: "(pyval \<rightharpoonup> pyval) \<Rightarrow> string \<Rightarrow> pyval list \<Rightarrow> (pyval \<rightharpoonup> pyval)" where
  "memory_store table conkey [] = table"
| "memory_store table conkey (item # items) =
     (case getitem item conkey of
        Inl e \<Rightarrow> memory_store table conkey items
      | Inr v \<Rightarrow>
          (case dict_key v of
             Inl e \<Rightarrow> memory_store table conkey items
           | Inr k \<Rightarrow> memory_store (table(k \<mapsto> item)) conkey items))"

definition Write_MEMORY ::
  "state \<Rightarrow> dict \<Rightarrow> string \<Rightarrow> string \<Rightarrow> state \<times> (exn + pyval \<times> string)" where
  "Write_MEMORY self content contype conkey =
     (let table = (case memory self contype of None \<Rightarrow> Map.empty | Some t \<Rightarrow> t);
          self1 = self\<lparr>memory := (memory self)(contype \<mapsto> table)\<rparr>
      in case subscript content contype of
           Inl e \<Rightarrow> (self1, Inl e)
         | Inr v \<Rightarrow>
             (case iterate v of
                Inl e \<Rightarrow> (self1, Inl e)
              | Inr items \<Rightarrow>
                  (self1\<lparr>memory := (memory self)(contype \<mapsto> memory_store table conkey items)\<rparr>,
                   Inr (PInt 0, []))))"

text \<open>The key under which \<open>memory_store\<close> files a record, if it files it at all.\<close>

definition memory_key :: "string \<Rightarrow> pyval \<Rightarrow> pyval option" where
  "memory_key conkey item =
     (case getitem item conkey of
        Inl e \<Rightarrow> None
      | Inr v \<Rightarrow> (case dict_key v of Inl e \<Rightarrow> None | Inr k \<Rightarrow> Some k))"

section \<open>The router: step configurations in \<^verbatim>\<open>Router.Setup\<close>\<close>

text \<open>
  \<^verbatim>\<open>stepconf['CATALOGURN'] not in self.CATALOGS\<close>, then \<^verbatim>\<open>self.CATALOGS[...]\<close>: the catalogs
  are keyed by their identifier, a string. A list or dictionary as the key is a
  TypeError (unhashable); any other value that is not a string is not a key of the table.
\<close>

fun catalog_of :: "(string \<rightharpoonup> dict) \<Rightarrow> pyval \<Rightarrow> exn + dict option" where
  "catalog_of catalogs (PStr urn) = Inr (catalogs urn)"
| "catalog_of catalogs (PList xs) = Inl TypeError"
| "catalog_of catalogs (PDict kvs) = Inl TypeError"
| "catalog_of catalogs v = Inr None"

text \<open>
  The body of the loop over \<^verbatim>\<open>self.config['STEPS']\<close> (lines 231 to 272):
  \<^verbatim>\<open>
  if 'CATALOGURN' not in stepconf:
      self.logger.error('Step CATALOGURN is missing or invalid')
      self.exit(1)
  if stepconf['CATALOGURN'] not in self.CATALOGS:
      self.logger.error('Step CATALOGURN is not define in Resource Catalogs')
      self.exit(1)
  myCAT = self.CATALOGS[stepconf['CATALOGURN']]
  stepconf['SOURCEURL'] = myCAT['CatalogAPIURL']
  # if use the same CatalogAPIURL, count and keep
  if stepconf['SOURCEURL'] in self.URL_USE_COUNT:
      self.URL_USE_COUNT[stepconf['SOURCEURL']] += 1
  else:
      self.URL_USE_COUNT[stepconf['SOURCEURL']] = 1
  try:
      SRCURL = urlparse(stepconf['SOURCEURL'])
  except:
      self.logger.error('Step SOURCE is missing or invalid')
      self.exit(1)
  if SRCURL.scheme not in ['file', 'http', 'https']:
      self.logger.error('Source not {file, http, https}')
      self.exit(1)
  stepconf['SRCURL'] = SRCURL
  try:
      DSTURL = urlparse(stepconf['DESTINATION'])
  except:
      self.logger.error('Step DESTINATION is missing or invalid')
      self.exit(1)
  if DSTURL.scheme not in ['file', 'analyze', 'function', 'memory']:
      self.logger.error('Destination is not one of {file, analyze, function, memory}')
      self.exit(1)
  stepconf['DSTURL'] = DSTURL
  if SRCURL.scheme in ['file'] and DSTURL.scheme in ['file']:
      self.logger.error('Source and Destination can not both be a {file}')
      self.exit(1)
  # Merge CATALOG config and STEP config, with the latter taking precendence
  self.STEPS.append({**self.CATALOGS[stepconf['CATALOGURN']], **stepconf})
  \<close>
  \<^verbatim>\<open>urlparse\<close> is the library's; the model takes it as the parameter \<open>urlparse\<close>.
  \<^verbatim>\<open>{**a, **b}\<close> is \<open>a ++ b\<close>: the right operand wins on a key of both.
\<close>

definition Setup_step :: "(pyval \<Rightarrow> exn + url) \<Rightarrow> state \<Rightarrow> dict \<Rightarrow> state \<times> (exn + unit)" where
  "Setup_step urlparse self stepconf =
     (case stepconf ''CATALOGURN'' of
        None \<Rightarrow>
          exit_router 1 (log_event (Error_step ''Step CATALOGURN is missing or invalid'') self)
      | Some urn \<Rightarrow>
     (case catalog_of (CATALOGS self) urn of
        Inl e \<Rightarrow> (self, Inl e)
      | Inr None \<Rightarrow>
          exit_router 1
            (log_event (Error_step ''Step CATALOGURN is not define in Resource Catalogs'') self)
      | Inr (Some myCAT) \<Rightarrow>
     (case subscript myCAT ''CatalogAPIURL'' of
        Inl e \<Rightarrow> (self, Inl e)
      | Inr api \<Rightarrow>
     (case dict_key api of
        Inl e \<Rightarrow> (self, Inl e)
      | Inr k \<Rightarrow>
     (let stepconf1 = stepconf(''SOURCEURL'' \<mapsto> api);
          self1 = self\<lparr>URL_USE_COUNT := (URL_USE_COUNT self)
                    (k \<mapsto> (case URL_USE_COUNT self k of None \<Rightarrow> 1 | Some n \<Rightarrow> n + 1))\<rparr>
      in
     (case urlparse api of
        Inl e \<Rightarrow>
          exit_router 1 (log_event (Error_step ''Step SOURCE is missing or invalid'') self1)
      | Inr SRCURL \<Rightarrow>
          if scheme SRCURL \<notin> set [''file'', ''http'', ''https'']
          then exit_router 1 (log_event (Error_step ''Source not {file, http, https}'') self1)
          else
     (let stepconf2 = stepconf1(''SRCURL'' \<mapsto> PUrl SRCURL) in
     (case (case subscript stepconf2 ''DESTINATION'' of
              Inl e \<Rightarrow> Inl e
            | Inr destination \<Rightarrow> urlparse destination) of
        Inl e \<Rightarrow>
          exit_router 1 (log_event (Error_step ''Step DESTINATION is missing or invalid'') self1)
      | Inr DSTURL \<Rightarrow>
          if scheme DSTURL \<notin> set [''file'', ''analyze'', ''function'', ''memory'']
          then exit_router 1
            (log_event
              (Error_step ''Destination is not one of {file, analyze, function, memory}'') self1)
          else
     (let stepconf3 = stepconf2(''DSTURL'' \<mapsto> PUrl DSTURL) in
          if scheme SRCURL \<in> set [''file''] \<and> scheme DSTURL \<in> set [''file'']
          then exit_router 1
            (log_event
              (Error_step ''Source and Destination can not both be a {file}'') self1)
          else (self1\<lparr>STEPS := STEPS self1 @ [myCAT ++ stepconf3]\<rparr>, Inr ()))))))))))"

text \<open>The loop: the first exception (an exit is one) ends it.\<close>

fun Setup_steps :: "(pyval \<Rightarrow> exn + url) \<Rightarrow> state \<Rightarrow> dict list \<Rightarrow> state \<times> (exn + unit)" where
  "Setup_steps urlparse self [] = (self, Inr ())"
| "Setup_steps urlparse self (stepconf # others) =
     (case Setup_step urlparse self stepconf of
        (self1, Inl e) \<Rightarrow> (self1, Inl e)
      | (self1, Inr u) \<Rightarrow> Setup_steps urlparse self1 others)"

text \<open>
  The key under which the loop counts a step configuration in \<^verbatim>\<open>URL_USE_COUNT\<close>: the
  \<^verbatim>\<open>CatalogAPIURL\<close> of the catalog it names, as the catalog has it. \<open>steps_using\<close> is the
  number of step configurations that are counted under a key.
\<close>

definition source_key :: "(string \<rightharpoonup> dict) \<Rightarrow> dict \<Rightarrow> pyval option" where
  "source_key catalogs stepconf =
     (case stepconf ''CATALOGURN'' of
        None \<Rightarrow> None
      | Some urn \<Rightarrow>
          (case catalog_of catalogs urn of
             Inr (Some myCAT) \<Rightarrow>
               (case subscript myCAT ''CatalogAPIURL'' of
                  Inl e \<Rightarrow> None
                | Inr api \<Rightarrow> (case dict_key api of Inl e \<Rightarrow> None | Inr k \<Rightarrow> Some k))
           | _ \<Rightarrow> None))"

definition steps_using :: "(string \<rightharpoonup> dict) \<Rightarrow> pyval \<Rightarrow> dict list \<Rightarrow> nat" where
  "steps_using catalogs k steps =
     length (filter (\<lambda>stepconf. source_key catalogs stepconf = Some k) steps)"

text \<open>
  For concrete runs: what \<^verbatim>\<open>urlparse\<close> gives on a string \<^verbatim>\<open>scheme://host/path\<close> or
  \<^verbatim>\<open>scheme:path\<close> in lower case, without port, query or fragment. On any other string
  this function is not the library's.
\<close>

definition after_scheme :: "string \<Rightarrow> string" where
  "after_scheme s = drop 1 (dropWhile (\<lambda>c. c \<noteq> CHR '':'') s)"

definition urlparse_plain :: "pyval \<Rightarrow> exn + url" where
  "urlparse_plain v =
     (case v of
        PStr s \<Rightarrow>
          Inr \<lparr>scheme = takeWhile (\<lambda>c. c \<noteq> CHR '':'') s,
               hostname = (if take 2 (after_scheme s) = ''//''
                           then takeWhile (\<lambda>c. c \<noteq> CHR ''/'') (drop 2 (after_scheme s))
                           else []),
               path = (if take 2 (after_scheme s) = ''//''
                       then dropWhile (\<lambda>c. c \<noteq> CHR ''/'') (drop 2 (after_scheme s))
                       else after_scheme s),
               geturl = s\<rparr>
      | _ \<Rightarrow> Inl TypeError)"

text \<open>A catalog and a step configuration that names it, overriding two of its keys.\<close>

definition example_router :: state where
  "example_router = fresh\<lparr>CATALOGS :=
     [''urn:cat'' \<mapsto> [''CatalogAPIURL'' \<mapsto> PStr ''https://catalog.example.org/api'',
                       ''LOCALTYPE'' \<mapsto> PStr ''GlobusCollection'',
                       ''Name'' \<mapsto> PStr ''catalog name'']]\<rparr>"

definition example_stepconf :: dict where
  "example_stepconf = [''CATALOGURN'' \<mapsto> PStr ''urn:cat'',
     ''DESTINATION'' \<mapsto> PStr ''function:Write_Globus_Collections'',
     ''Name'' \<mapsto> PStr ''step name'',
     ''SOURCEURL'' \<mapsto> PStr ''https://step.example.org/other'']"

section \<open>The router: \<^verbatim>\<open>Router.Get_HTTP\<close>\<close>

text \<open>
  \<^verbatim>\<open>
  def Get_HTTP(self, url, contype):
      # return previously saved data if the source is the same
      data_cache_key = contype + ':' + url.geturl()
      if data_cache_key in self.HTTP_CACHE:
          return({contype: self.HTTP_CACHE[data_cache_key]})
      ...
      conn.request('GET', url.path, None, headers)
      self.logger.debug('HTTP GET {}'.format(url.geturl()))
      response = conn.getresponse()
      result = response.read().decode("utf-8-sig")
      self.logger.debug('HTTP RESP {} {} (returned {}/bytes)'.format(...))
      try:
          content = json.loads(result)
      except ValueError as e:
          self.logger.error('Response not in expected JSON format ({})'.format(e))
          return(None)
      else:
          # cache content only for the url used more than once
          if url.geturl() in self.URL_USE_COUNT:
              if (self.URL_USE_COUNT[url.geturl()] > 1):
                  # save retrieved content to the HTTP_CACHE to reuse from memory
                  self.HTTP_CACHE[data_cache_key] = content
          return({contype: content})
  \<close>
  The request goes to the URL's host for the URL's path; the web answers it with a
  connection error (raised by \<^verbatim>\<open>conn.request\<close>), with a body that is not JSON, or with a
  JSON value. The function returns \<^verbatim>\<open>None\<close> or a dictionary with the one key \<open>contype\<close>.
\<close>

definition Get_HTTP :: "state \<Rightarrow> url \<Rightarrow> string \<Rightarrow> state \<times> (exn + dict option)" where
  "Get_HTTP self url contype =
     (let data_cache_key = contype @ '':'' @ geturl url in
      case HTTP_CACHE self data_cache_key of
        Some cached \<Rightarrow> (self, Inr (Some [contype \<mapsto> cached]))
      | None \<Rightarrow>
          (let sent = self\<lparr>requests := requests self @ [(hostname url, path url)]\<rparr> in
           case web self (hostname url, path url) (length (requests self)) of
             Inl e \<Rightarrow> (sent, Inl e)
           | Inr None \<Rightarrow>
               (log_event Error_not_JSON
                  (log_event Debug_HTTP_RESP (log_event (Debug_HTTP_GET (geturl url)) sent)),
                Inr None)
           | Inr (Some content) \<Rightarrow>
               (let self1 = log_event Debug_HTTP_RESP
                              (log_event (Debug_HTTP_GET (geturl url)) sent)
                in case URL_USE_COUNT self1 (PStr (geturl url)) of
                     None \<Rightarrow> (self1, Inr (Some [contype \<mapsto> content]))
                   | Some n \<Rightarrow>
                       if n > 1
                       then (self1\<lparr>HTTP_CACHE := (HTTP_CACHE self1)(data_cache_key \<mapsto> content)\<rparr>,
                             Inr (Some [contype \<mapsto> content]))
                       else (self1, Inr (Some [contype \<mapsto> content])))))"

text \<open>How many configured steps use a URL, as \<^verbatim>\<open>Setup\<close> counted them.\<close>

definition use_count :: "state \<Rightarrow> url \<Rightarrow> nat" where
  "use_count self url = (case URL_USE_COUNT self (PStr (geturl url)) of None \<Rightarrow> 0 | Some n \<Rightarrow> n)"

text \<open>
  A router in which two steps use the URL \<^verbatim>\<open>https://info.example.org/list\<close>, on a web
  whose answer changes with every request: the \<open>n\<close>-th answer is the JSON list \<open>[n]\<close>.
\<close>

definition shared_url :: url where
  "shared_url = \<lparr>scheme = ''https'', hostname = ''info.example.org'', path = ''/list'',
     geturl = ''https://info.example.org/list''\<rparr>"

definition shared_router :: state where
  "shared_router = fresh\<lparr>URL_USE_COUNT := [PStr ''https://info.example.org/list'' \<mapsto> 2],
     web := (\<lambda>request n. Inr (Some (PList [PInt (int n)])))\<rparr>"

section \<open>The router: \<^verbatim>\<open>Router.Delete_OLD\<close>\<close>

text \<open>
  \<^verbatim>\<open>
  def Delete_OLD(self, me, cur, new):
      for URN in [id for id in cur if id not in new]:
          if self.ESEARCH:
              try:
                  ResourceV3Index.get(id = URN).delete()
              except Exception as e:
                  self.logger.error('{} deleting Elastic id={}: {}'.format(type(e).__name__, URN, e))
          try:
              ResourceV3Relation.objects.filter(FirstResourceID__exact = URN).delete()
              ResourceV3.objects.get(pk = URN).delete()
              ResourceV3Local.objects.get(pk = URN).delete()
          except Exception as e:
              self.logger.error('{} deleting ID={}: {}'.format(type(e).__name__, URN, e))
          else:
              self.logger.info('{} deleted ID={}'.format(me, URN))
              self.STATS.update({me + '.Delete'})
  \<close>
  \<open>cur\<close> and \<open>new\<close> are dictionaries keyed by identifier; the function reads their
  keys only, so the model takes the two lists of keys. \<^verbatim>\<open>get\<close> on a row or document that
  does not exist raises (\<open>DoesNotExist\<close>, \<open>NotFoundError\<close>); deleting the rows a filter
  selects does not. \<open>Delete_one\<close> is the body of the loop for one identifier.
\<close>

definition Delete_one :: "string \<Rightarrow> string \<Rightarrow> state \<Rightarrow> state" where
  "Delete_one me URN self =
     (let self1 =
            (if ESEARCH self
             then (if URN \<in> set (ResourceV3Index self)
                   then self\<lparr>ResourceV3Index := removeAll URN (ResourceV3Index self)\<rparr>
                   else log_event (Error_deleting_Elastic NotFoundError URN) self)
             else self);
          self2 = self1\<lparr>ResourceV3Relation :=
                    filter (\<lambda>r. FirstResourceID r \<noteq> URN) (ResourceV3Relation self1)\<rparr>
      in if URN \<notin> resource_ID ` set (ResourceV3 self2)
         then log_event (Error_deleting_ID DoesNotExist URN) self2
         else
           (let self3 = self2\<lparr>ResourceV3 :=
                          filter (\<lambda>r. resource_ID r \<noteq> URN) (ResourceV3 self2)\<rparr>
            in if URN \<notin> local_ID ` set (ResourceV3Local self3)
               then log_event (Error_deleting_ID DoesNotExist URN) self3
               else count_up (me @ ''.Delete'')
                      (log_event (Info_deleted me URN)
                         (self3\<lparr>ResourceV3Local :=
                            filter (\<lambda>r. local_ID r \<noteq> URN) (ResourceV3Local self3)\<rparr>))))"

fun Delete_loop :: "string \<Rightarrow> string list \<Rightarrow> state \<Rightarrow> state" where
  "Delete_loop me [] self = self"
| "Delete_loop me (URN # URNs) self = Delete_loop me URNs (Delete_one me URN self)"

definition Delete_OLD :: "string \<Rightarrow> string list \<Rightarrow> string list \<Rightarrow> state \<Rightarrow> state" where
  "Delete_OLD me cur new self = Delete_loop me (filter (\<lambda>id. id \<notin> set new) cur) self"

text \<open>
  One row of each table, for concrete runs: the defaults are the fields that
  \<^verbatim>\<open>Write_Globus_Collections\<close> sets the same way for every record.
\<close>

definition local_example :: "string \<Rightarrow> local_row" where
  "local_example urn = \<lparr>local_ID = urn, local_Affiliation = ''xsede.org'',
     local_LocalID = PStr urn, local_LocalType = PStr ''GlobusCollection'', local_LocalURL = [],
     local_CatalogMetaURL = PStr ''urn:catalog'', local_EntityJSON = []\<rparr>"

definition resource_example :: "string \<Rightarrow> resource_row" where
  "resource_example urn = \<lparr>resource_ID = urn, resource_Affiliation = ''xsede.org'',
     resource_LocalID = PStr urn, resource_QualityLevel = ''Production'',
     resource_ResourceGroup = ''Software'', resource_Type = ''Online Service'',
     resource_Keywords = ''Globus,File Transfer'', resource_Audience = ''xsede.org''\<rparr>"

definition relation_example :: "string \<Rightarrow> string \<Rightarrow> relation_row" where
  "relation_example first second = \<lparr>relation_ID = first @ '':'' @ second,
     FirstResourceID = first, SecondResourceID = second, RelationType = ''Provided By''\<rparr>"

text \<open>A warehouse with two collections, both indexed and both with a relation.\<close>

definition swept_router :: state where
  "swept_router = fresh\<lparr>ESEARCH := True,
     ResourceV3Local := [local_example ''urn:A'', local_example ''urn:B''],
     ResourceV3 := [resource_example ''urn:A'', resource_example ''urn:B''],
     ResourceV3Relation := [relation_example ''urn:A'' ''urn:X'', relation_example ''urn:B'' ''urn:X''],
     ResourceV3Index := [''urn:A'', ''urn:B'']\<rparr>"

section \<open>The router: \<^verbatim>\<open>Router.Write_Globus_Collections\<close>\<close>

text \<open>The truth value of a Python value, as \<^verbatim>\<open>if v:\<close> takes it.\<close>

fun truthy :: "pyval \<Rightarrow> bool" where
  "truthy PNone = False"
| "truthy (PBool b) = b"
| "truthy (PInt i) = (i \<noteq> 0)"
| "truthy (PStr s) = (s \<noteq> [])"
| "truthy (PList xs) = (xs \<noteq> [])"
| "truthy (PDict kvs) = (kvs \<noteq> [])"
| "truthy (PUrl u) = True"
| "truthy (PResponse kvs) = True"

text \<open>\<^verbatim>\<open>type(e).__name__\<close>, which starts every error message of the method.\<close>

fun exn_name :: "exn \<Rightarrow> string" where
  "exn_name AttributeError = ''AttributeError''"
| "exn_name IndexError = ''IndexError''"
| "exn_name KeyError = ''KeyError''"
| "exn_name NameError = ''NameError''"
| "exn_name TypeError = ''TypeError''"
| "exn_name UnboundLocalError = ''UnboundLocalError''"
| "exn_name ValueError = ''ValueError''"
| "exn_name IOError = ''IOError''"
| "exn_name DoesNotExist = ''DoesNotExist''"
| "exn_name NotFoundError = ''NotFoundError''"
| "exn_name DataError = ''DataError''"
| "exn_name (SystemExit rc) = ''SystemExit''"

text \<open>
  The name of the step in counters and log lines (line 468):
  \<^verbatim>\<open>me = '{} to {}({}:{})'.format(sys._getframe().f_code.co_name, self.WAREHOUSE_CATALOG,
       myRESGROUP, myRESTYPE)\<close>.
\<close>

definition me :: string where
  "me = ''Write_Globus_Collections to ResourceV3(Software:Online Service)''"

text \<open>
  Lines 478 and 479:
  \<^verbatim>\<open>
  if item.get('display_name'):
      self.GLOBUS_NAME_URNMAP[item['display_name']] = myGLOBALURN
  \<close>
\<close>

definition name_urnmap :: "state \<Rightarrow> pyval \<Rightarrow> string \<Rightarrow> exn + state" where
  "name_urnmap self item urn =
     (case get_method item ''display_name'' of
        Inl e \<Rightarrow> Inl e
      | Inr name \<Rightarrow>
          if truthy name
          then (case dict_key name of
                  Inl e \<Rightarrow> Inl e
                | Inr k \<Rightarrow> Inr (self\<lparr>GLOBUS_NAME_URNMAP := (GLOBUS_NAME_URNMAP self)(k \<mapsto> urn)\<rparr>))
          else Inr self)"

text \<open>\<^verbatim>\<open>item.data\<close>: the attribute of a response object; a plain dictionary has none.\<close>

fun data_attribute :: "pyval \<Rightarrow> exn + (string \<times> pyval) list" where
  "data_attribute (PResponse kvs) = Inr kvs"
| "data_attribute v = Inl AttributeError"

text \<open>\<^verbatim>\<open>row.save()\<close>: the row replaces the one with its primary key, or is added.\<close>

definition save_local :: "local_row \<Rightarrow> local_row list \<Rightarrow> local_row list" where
  "save_local row rows =
     (if local_ID row \<in> local_ID ` set rows
      then map (\<lambda>r. if local_ID r = local_ID row then row else r) rows
      else rows @ [row])"

definition save_resource :: "resource_row \<Rightarrow> resource_row list \<Rightarrow> resource_row list" where
  "save_resource row rows =
     (if resource_ID row \<in> resource_ID ` set rows
      then map (\<lambda>r. if resource_ID r = resource_ID row then row else r) rows
      else rows @ [row])"

text \<open>
  The first \<^verbatim>\<open>try\<close> block (lines 480 to 493), for a record whose identifier \<open>urn\<close> has
  been computed, so that \<^verbatim>\<open>item['id']\<close> is the string \<open>native\<close>:
  \<^verbatim>\<open>
  local = ResourceV3Local(
              ID = myGLOBALURN,
              CreationTime = datetime.now(timezone.utc),
              Validity = self.DefaultValidity,
              Affiliation = self.Affiliation,
              LocalID = item['id'],
              LocalType = config['LOCALTYPE'],
              LocalURL = "https://app.globus.org/file-manager?origin_id="+item['id'],
              CatalogMetaURL = self.CATALOGURN_to_URL(config['CATALOGURN']),
              EntityJSON = item.data,
          )
  local.save()
  \<close>
  The database is taken to be reachable and to accept the row.
\<close>

definition local_block :: "state \<Rightarrow> dict \<Rightarrow> pyval \<Rightarrow> string \<Rightarrow> string \<Rightarrow> state \<times> (exn + unit)" where
  "local_block self stepconf item urn native =
     (case subscript stepconf ''LOCALTYPE'' of
        Inl e \<Rightarrow> (self, Inl e)
      | Inr localtype \<Rightarrow>
     (case subscript stepconf ''CATALOGURN'' of
        Inl e \<Rightarrow> (self, Inl e)
      | Inr catalogurn \<Rightarrow>
     (case data_attribute item of
        Inl e \<Rightarrow> (self, Inl e)
      | Inr data \<Rightarrow>
          (self\<lparr>ResourceV3Local :=
              save_local
                \<lparr>local_ID = urn, local_Affiliation = Affiliation self,
                 local_LocalID = PStr native, local_LocalType = localtype,
                 local_LocalURL = ''https://app.globus.org/file-manager?origin_id='' @ native,
                 local_CatalogMetaURL = catalogurn, local_EntityJSON = data\<rparr>
                (ResourceV3Local self)\<rparr>,
           Inr ()))))"

text \<open>
  \<^verbatim>\<open>Format_Description(value)\<close> calls \<^verbatim>\<open>value.rstrip()\<close> unless the value is \<^verbatim>\<open>None\<close>: a
  value that is no string has no such method. \<^verbatim>\<open>item.get('description', resname)\<close> is
  the record's description, or a string when the record has none.
\<close>

fun Format_Description :: "pyval option \<Rightarrow> exn + unit" where
  "Format_Description None = Inr ()"
| "Format_Description (Some PNone) = Inr ()"
| "Format_Description (Some (PStr s)) = Inr ()"
| "Format_Description (Some v) = Inl AttributeError"

text \<open>
  The methods of a string that the two programs call. Looking up any other name on a
  string raises AttributeError.
\<close>

definition str_methods :: "string list" where
  "str_methods = [''format'', ''join'', ''replace'', ''rstrip'', ''split'', ''splitlines'',
     ''upper'']"

definition str_attribute :: "string \<Rightarrow> exn + string" where
  "str_attribute name = (if name \<in> set str_methods then Inr name else Inl AttributeError)"

text \<open>
  The second \<^verbatim>\<open>try\<close> block (lines 500 to 546). Up to line 523 it builds the description
  text from the record: the only call that can raise is the \<^verbatim>\<open>Format_Description\<close>
  above. Line 524 is
  \<^verbatim>\<open>
  Description.append('- Globus link: https://app.globus.org/file-manager/collections{}'.formaDt(item.get('id')))
  \<close>
  and a string has \<^verbatim>\<open>format\<close>, not \<^verbatim>\<open>formaDt\<close>. What follows is
  \<^verbatim>\<open>
  globuskeywords = item.get('keywords')
  if globuskeywords:
      keywords = globuskeywords+",Globus,File Transfer"
  else:
      keywords = "Globus,File Transfer"
  resource = ResourceV3(ID = myGLOBALURN, Affiliation = self.Affiliation, LocalID = item['id'],
                  QualityLevel = 'Production', Name = resname, ResourceGroup = myRESGROUP,
                  Type = myRESTYPE, ..., Keywords = keywords, Audience = self.Affiliation)
  resource.save()
  if self.ESEARCH:
      resource.indexing()
  \<close>
\<close>

definition resource_block :: "state \<Rightarrow> pyval \<Rightarrow> string \<Rightarrow> string \<Rightarrow> state \<times> (exn + unit)" where
  "resource_block self item urn native =
     (case Format_Description (case item of PResponse kvs \<Rightarrow> map_of kvs ''description''
                                 | PDict kvs \<Rightarrow> map_of kvs ''description'' | _ \<Rightarrow> None) of
        Inl e \<Rightarrow> (self, Inl e)
      | Inr description \<Rightarrow>
     (case str_attribute ''formaDt'' of
        Inl e \<Rightarrow> (self, Inl e)
      | Inr method \<Rightarrow>
     (case get_method item ''keywords'' of
        Inl e \<Rightarrow> (self, Inl e)
      | Inr globuskeywords \<Rightarrow>
     (case (if truthy globuskeywords
            then (case globuskeywords of
                    PStr s \<Rightarrow> Inr (s @ '',Globus,File Transfer'')
                  | _ \<Rightarrow> Inl TypeError)
            else Inr ''Globus,File Transfer'') of
        Inl e \<Rightarrow> (self, Inl e)
      | Inr keywords \<Rightarrow>
          (let self1 = self\<lparr>ResourceV3 :=
                 save_resource
                   \<lparr>resource_ID = urn, resource_Affiliation = Affiliation self,
                    resource_LocalID = PStr native, resource_QualityLevel = ''Production'',
                    resource_ResourceGroup = ''Software'', resource_Type = ''Online Service'',
                    resource_Keywords = keywords, resource_Audience = Affiliation self\<rparr>
                   (ResourceV3 self)\<rparr>
           in ((if ESEARCH self1
                then self1\<lparr>ResourceV3Index := List.insert urn (ResourceV3Index self1)\<rparr>
                else self1),
               Inr ()))))))"

text \<open>
  How the loop over the incoming records ends: with an exception that leaves the
  method, with one of its two \<^verbatim>\<open>return(False, msg)\<close>, or after the last record, with the
  keys of \<open>new\<close>.
\<close>

datatype loop_end = Raise exn | Return pyval string | Done "string list"

text \<open>
  The loop (lines 476 to 553):
  \<^verbatim>\<open>
  for item in content[contype]:
      myGLOBALURN = self.format_GLOBALURN(config['URNPREFIX'], 'globusuuid', item['id'])
      if item.get('display_name'):
          self.GLOBUS_NAME_URNMAP[item['display_name']] = myGLOBALURN
      try:
          local = ...
          local.save()
      except Exception as e:
          msg = '{} saving local ID={}: {}'.format(type(e).__name__, myGLOBALURN, e)
          self.logger.error(msg)
          return(False, msg)
      new[myGLOBALURN] = local

      try:
          ...
      except Exception as e:
          msg = '{} saving resource ID={}: {}'.format(type(e).__name__, myGLOBALURN, e)
          self.logger.error(msg)
          return(False, msg)

      self.logger.debug('{} updated resource ID={}'.format(contype, myGLOBALURN))
      self.STATS.update({me + '.Update'})
  \<close>
  The returned message is given up to the text of the exception.
\<close>

fun Write_records ::
  "state \<Rightarrow> dict \<Rightarrow> string \<Rightarrow> string list \<Rightarrow> pyval list \<Rightarrow> state \<times> loop_end" where
  "Write_records self stepconf contype new [] = (self, Done new)"
| "Write_records self stepconf contype new (item # items) =
     (case myGLOBALURN stepconf item of
        Inl e \<Rightarrow> (self, Raise e)
      | Inr urn \<Rightarrow>
     (case name_urnmap self item urn of
        Inl e \<Rightarrow> (self, Raise e)
      | Inr self1 \<Rightarrow>
     (case local_block self1 stepconf item urn
             (case getitem item ''id'' of Inr (PStr native) \<Rightarrow> native | _ \<Rightarrow> []) of
        (self2, Inl e) \<Rightarrow>
          (log_event (Error_saving_local e urn) self2,
           Return (PBool False) (exn_name e @ '' saving local ID='' @ urn @ '': ''))
      | (self2, Inr saved) \<Rightarrow>
     (case resource_block self2 item urn
             (case getitem item ''id'' of Inr (PStr native) \<Rightarrow> native | _ \<Rightarrow> []) of
        (self3, Inl e) \<Rightarrow>
          (log_event (Error_saving_resource e urn) self3,
           Return (PBool False) (exn_name e @ '' saving resource ID='' @ urn @ '': ''))
      | (self3, Inr saved) \<Rightarrow>
          Write_records
            (count_up (me @ ''.Update'') (log_event (Debug_updated contype urn) self3))
            stepconf contype (if urn \<in> set new then new else new @ [urn]) items))))"

text \<open>
  \<^verbatim>\<open>
  def Log_STEP(self, me):
      summary_msg = 'Processed {} in {:.3f}/seconds: {}/updates, {}/deletes, {}/skipped'.format(me,
          self.PROCESSING_SECONDS[me],
          self.STATS[me + '.Update'], self.STATS[me + '.Delete'], self.STATS[me + '.Skip'])
      self.logger.info(summary_msg)
  \<close>
\<close>

definition Log_STEP :: "string \<Rightarrow> state \<Rightarrow> state" where
  "Log_STEP step self =
     log_event (Info_processed step (STATS self (step @ ''.Update''))
                  (STATS self (step @ ''.Delete'')) (STATS self (step @ ''.Skip''))) self"

text \<open>
  The method (lines 464 to 559). Before the loop it reads the current records,
  \<^verbatim>\<open>
  for item in ResourceV3Local.objects.filter(Affiliation__exact = self.Affiliation)
                  .filter(ID__startswith = config['URNPREFIX']):
      cur[item.ID] = item
  \<close>
  and after it come \<^verbatim>\<open>self.Delete_OLD(me, cur, new)\<close>, \<^verbatim>\<open>self.Log_STEP(me)\<close> and
  \<^verbatim>\<open>return(0, '')\<close>. A prefix that is not a string is taken as a TypeError of the query.
\<close>

definition Write_Globus_Collections ::
  "state \<Rightarrow> dict \<Rightarrow> string \<Rightarrow> dict \<Rightarrow> state \<times> (exn + pyval \<times> string)" where
  "Write_Globus_Collections self content contype stepconf =
     (case subscript stepconf ''URNPREFIX'' of
        Inl e \<Rightarrow> (self, Inl e)
      | Inr (PStr prefix) \<Rightarrow>
          (let cur = map local_ID
                       (filter (\<lambda>r. local_Affiliation r = Affiliation self
                                    \<and> take (length prefix) (local_ID r) = prefix)
                          (ResourceV3Local self))
           in case subscript content contype of
                Inl e \<Rightarrow> (self, Inl e)
              | Inr records \<Rightarrow>
                  (case iterate records of
                     Inl e \<Rightarrow> (self, Inl e)
                   | Inr items \<Rightarrow>
                       (case Write_records self stepconf contype [] items of
                          (self1, Raise e) \<Rightarrow> (self1, Inl e)
                        | (self1, Return rc msg) \<Rightarrow> (self1, Inr (rc, msg))
                        | (self1, Done new) \<Rightarrow>
                            (Log_STEP me (Delete_OLD me cur new self1), Inr (PInt 0, [])))))
      | Inr v \<Rightarrow> (self, Inl TypeError))"

text \<open>
  A warehouse that holds the collections \<open>a\<close> and \<open>b\<close>, a step configuration, and an
  envelope that brings the collections \<open>b\<close> and \<open>c\<close>.
\<close>

definition collections_router :: state where
  "collections_router = fresh\<lparr>
     ResourceV3Local := [local_example ''urn:glo:globusuuid:a'', local_example ''urn:glo:globusuuid:b''],
     ResourceV3 := [resource_example ''urn:glo:globusuuid:a'', resource_example ''urn:glo:globusuuid:b'']\<rparr>"

definition collections_stepconf :: dict where
  "collections_stepconf = [''URNPREFIX'' \<mapsto> PStr ''urn:glo:'',
     ''LOCALTYPE'' \<mapsto> PStr ''GlobusCollection'', ''CATALOGURN'' \<mapsto> PStr ''urn:cat'']"

definition collections_content :: dict where
  "collections_content = [''GlobusCollection'' \<mapsto>
     PList [PResponse [(''id'', PStr ''b'')], PResponse [(''id'', PStr ''c'')]]]"

section \<open>The router: one iteration of \<^verbatim>\<open>Router.Run\<close>\<close>

text \<open>
  A content envelope is a dictionary from a type tag to the fetched content. Its order
  is kept, since \<^verbatim>\<open>Write_CACHE\<close> writes it out as it is.
\<close>

type_synonym envelope = "(string \<times> pyval) list"

text \<open>
  \<^verbatim>\<open>
  def Read_CACHE(self, file, contype):
      with open(file, 'r') as my_file:
          data = my_file.read()
          my_file.close()
      try:
          content = json.loads(data)
          self.logger.info('Read and parsed {} bytes from file={}'.format(len(data), file))
          return({contype: content})
      except ValueError as e:
          self.logger.error('Error "{}" parsing file={}'.format(e, file))
          self.exit(1)
  \<close>
\<close>

definition Read_CACHE :: "state \<Rightarrow> string \<Rightarrow> string \<Rightarrow> state \<times> (exn + envelope)" where
  "Read_CACHE self file contype =
     (case files self file of
        None \<Rightarrow> (self, Inl IOError)
      | Some f \<Rightarrow>
          (case file_json f of
             None \<Rightarrow> exit_router 1 (log_event (Error_parsing_file file) self)
           | Some content \<Rightarrow> (log_event (Info_read_file file) self, Inr [(contype, content)])))"

text \<open>
  The lines of the file of extra endpoints, as the \<^verbatim>\<open>try\<close> block of \<^verbatim>\<open>Get_Collections\<close>
  reads them; \<open>None\<close> when the block raises (no \<^verbatim>\<open>EXTRA_ENDPOINTS_FILE\<close> in the
  configuration, a value that is no path, or no such file), which the bare \<^verbatim>\<open>except\<close>
  passes over.
\<close>

definition extra_endpoint_ids :: "state \<Rightarrow> string list option" where
  "extra_endpoint_ids self =
     (case config self ''EXTRA_ENDPOINTS_FILE'' of
        Some (PStr file) \<Rightarrow> (case files self file of None \<Rightarrow> None | Some f \<Rightarrow> Some (file_lines f))
      | _ \<Rightarrow> None)"

text \<open>
  \<^verbatim>\<open>
  def Get_Collections(self, url, contype):
      ...
      nac = globus_sdk.NativeAppAuthClient(self.config['GLOBUS_CLIENT_ID'])
      authorizer = globus_sdk.RefreshTokenAuthorizer(
                                       self.config['GLOBUS_REFRESH_TOKEN'], nac)
      client = globus_sdk.TransferClient(authorizer=authorizer)
      endpoint_list = client.endpoint_search(filter_scope='my-endpoints',num_results=1000)
      try:
          with open(self.config['EXTRA_ENDPOINTS_FILE']) as f:
              extra_endpoint_ids = f.read().splitlines()
      except:
          pass
      else:
          #construct list of extra endpoints
          extra_endpoints = []
          if extra_endpoint_ids:
              for ep in extra_endpoint_ids:
                  epl = client.get_endpoint(ep)
                  extra_endpoints.append(epl)
          #content = endpoint_list.data.extend(extra_endpoints)
          content = endpoint_list.data
      return({contype: content})
  \<close>
  \<open>content\<close> is assigned in the \<^verbatim>\<open>else\<close> branch only: after the \<^verbatim>\<open>except\<close> branch the
  \<^verbatim>\<open>return\<close> reads a local variable that has no value, an UnboundLocalError. The search
  is one request to the transfer service, answered by \<open>collections\<close> (an error of the
  service is taken to be raised by the call); every extra endpoint is one more request,
  taken to succeed.
\<close>

definition Get_Collections :: "state \<Rightarrow> url \<Rightarrow> string \<Rightarrow> state \<times> (exn + envelope)" where
  "Get_Collections self url contype =
     (case subscript (config self) ''GLOBUS_CLIENT_ID'' of
        Inl e \<Rightarrow> (self, Inl e)
      | Inr client_id \<Rightarrow>
     (case subscript (config self) ''GLOBUS_REFRESH_TOKEN'' of
        Inl e \<Rightarrow> (self, Inl e)
      | Inr refresh_token \<Rightarrow>
     (let self1 = self\<lparr>requests := requests self
                    @ [(''transfer.api.globus.org'', ''endpoint_search'')]\<rparr>
      in case collections self of
           Inl e \<Rightarrow> (self1, Inl e)
         | Inr endpoint_list \<Rightarrow>
             (case extra_endpoint_ids self1 of
                None \<Rightarrow> (self1, Inl UnboundLocalError)
              | Some ids \<Rightarrow>
                  (self1\<lparr>requests := requests self1
                      @ map (\<lambda>ep. (''transfer.api.globus.org'', ''endpoint/'' @ ep)) ids\<rparr>,
                   Inr [(contype, PList endpoint_list)])))))"

text \<open>\<^verbatim>\<open>json.dumps\<close> takes what \<^verbatim>\<open>json.loads\<close> gives; a parsed URL or a response object is
  not serializable.\<close>

fun serializable :: "pyval \<Rightarrow> bool" where
  "serializable (PList xs) = list_all serializable xs"
| "serializable (PDict kvs) = list_all serializable (map snd kvs)"
| "serializable (PUrl u) = False"
| "serializable (PResponse kvs) = False"
| "serializable v = True"

text \<open>
  \<^verbatim>\<open>
  def Write_CACHE(self, file, content):
      data = json.dumps(content)
      with open(file, 'w') as my_file:
          my_file.write(data)
      self.logger.info('Serialized and wrote {} bytes to file={}'.format(len(data), file))
      return(0, '')
  \<close>
  The file is taken to be writable. Of the written file the model keeps the JSON value;
  its text is left out.
\<close>

definition Write_CACHE :: "state \<Rightarrow> string \<Rightarrow> envelope \<Rightarrow> state \<times> (exn + pyval \<times> string)" where
  "Write_CACHE self file content =
     (if serializable (PDict content)
      then (log_event (Info_wrote_file file)
              (self\<lparr>files := (files self)
                 (file \<mapsto> \<lparr>file_lines = [], file_json = Some (PDict content)\<rparr>)\<rparr>),
            Inr (PInt 0, []))
      else (self, Inl TypeError))"

text \<open>
  \<^verbatim>\<open>
  def Analyze_CONTENT(self, content):
      # Write when needed
      return(0, '')
  \<close>
\<close>

definition Analyze_CONTENT :: "state \<Rightarrow> envelope \<Rightarrow> state \<times> (exn + pyval \<times> string)" where
  "Analyze_CONTENT self content = (self, Inr (PInt 0, []))"

text \<open>
  What an iteration reads of a step configuration (lines 571 to 575):
  \<^verbatim>\<open>stepconf['DSTURL'].path\<close>, \<^verbatim>\<open>stepconf['LOCALTYPE']\<close> and \<^verbatim>\<open>stepconf['SRCURL'].scheme\<close>.
  Only a parsed URL has a path and a scheme. The type tag is a string in every catalog;
  a tag that is no string is taken as a TypeError.
\<close>

definition step_urls :: "dict \<Rightarrow> exn + url \<times> url \<times> string" where
  "step_urls stepconf =
     (case subscript stepconf ''DSTURL'' of
        Inl e \<Rightarrow> Inl e
      | Inr (PUrl DSTURL) \<Rightarrow>
          (case subscript stepconf ''LOCALTYPE'' of
             Inl e \<Rightarrow> Inl e
           | Inr (PStr contype) \<Rightarrow>
               (case subscript stepconf ''SRCURL'' of
                  Inl e \<Rightarrow> Inl e
                | Inr (PUrl SRCURL) \<Rightarrow> Inr (SRCURL, DSTURL, contype)
                | Inr v \<Rightarrow> Inl AttributeError)
           | Inr v \<Rightarrow> Inl TypeError)
      | Inr v \<Rightarrow> Inl AttributeError)"

text \<open>
  Lines 578 to 581:
  \<^verbatim>\<open>
  if stepconf['SRCURL'].scheme == 'file':
      content = self.Read_CACHE(stepconf['SRCURL'].path, stepconf['LOCALTYPE'])
  else:
      content = self.Get_Collections(stepconf['SRCURL'], stepconf['LOCALTYPE'])
  \<close>
\<close>

definition fetch :: "state \<Rightarrow> url \<Rightarrow> string \<Rightarrow> state \<times> (exn + envelope)" where
  "fetch self SRCURL contype =
     (if scheme SRCURL = ''file'' then Read_CACHE self (path SRCURL) contype
      else Get_Collections self SRCURL contype)"

text \<open>
  Line 593 calls whatever attribute of the router the path of the destination names:
  \<^verbatim>\<open>(rc, message) = getattr(self, pa_function)(content, stepconf['LOCALTYPE'], stepconf)\<close>.
  Four methods of \<^verbatim>\<open>Router\<close> take three arguments. \<^verbatim>\<open>Write_Globus_Collections\<close> is the one
  written for this call. \<^verbatim>\<open>Write_MEMORY\<close> gets the step configuration as its \<^verbatim>\<open>conkey\<close>:
  \<^verbatim>\<open>item[conkey]\<close> raises for every item (a dictionary is no key and no index), the bare
  \<^verbatim>\<open>except\<close> passes, and the method returns \<^verbatim>\<open>(0, '')\<close> with the table of the tag created
  if it was not there and nothing stored.
\<close>

definition Write_MEMORY_by_name ::
  "state \<Rightarrow> dict \<Rightarrow> string \<Rightarrow> state \<times> (exn + pyval \<times> string)" where
  "Write_MEMORY_by_name self content contype =
     (let table = (case memory self contype of None \<Rightarrow> Map.empty | Some t \<Rightarrow> t);
          self1 = self\<lparr>memory := (memory self)(contype \<mapsto> table)\<rparr>
      in case subscript content contype of
           Inl e \<Rightarrow> (self1, Inl e)
         | Inr v \<Rightarrow>
             (case iterate v of
                Inl e \<Rightarrow> (self1, Inl e)
              | Inr items \<Rightarrow> (self1, Inr (PInt 0, []))))"

text \<open>
  \<^verbatim>\<open>Delete_OLD(me, cur, new)\<close> gets the envelope as \<^verbatim>\<open>me\<close>, the type tag as \<^verbatim>\<open>cur\<close> and the step
  configuration as \<^verbatim>\<open>new\<close>: it sweeps the characters of the tag that are no key of the
  step configuration, each as an identifier. \<open>Delete_attempt\<close> is the body of its loop up
  to the \<^verbatim>\<open>else\<close> branch, with whether that branch is reached. There the line is logged
  and \<^verbatim>\<open>me + '.Delete'\<close>, a dictionary plus a string, raises TypeError. When the loop
  ends, the method returns \<^verbatim>\<open>None\<close>, which line 593 cannot unpack: TypeError again.
\<close>

definition Delete_attempt :: "string \<Rightarrow> state \<Rightarrow> state \<times> bool" where
  "Delete_attempt URN self =
     (let self1 =
            (if ESEARCH self
             then (if URN \<in> set (ResourceV3Index self)
                   then self\<lparr>ResourceV3Index := removeAll URN (ResourceV3Index self)\<rparr>
                   else log_event (Error_deleting_Elastic NotFoundError URN) self)
             else self);
          self2 = self1\<lparr>ResourceV3Relation :=
                    filter (\<lambda>r. FirstResourceID r \<noteq> URN) (ResourceV3Relation self1)\<rparr>
      in if URN \<notin> resource_ID ` set (ResourceV3 self2)
         then (log_event (Error_deleting_ID DoesNotExist URN) self2, False)
         else
           (let self3 = self2\<lparr>ResourceV3 :=
                          filter (\<lambda>r. resource_ID r \<noteq> URN) (ResourceV3 self2)\<rparr>
            in if URN \<notin> local_ID ` set (ResourceV3Local self3)
               then (log_event (Error_deleting_ID DoesNotExist URN) self3, False)
               else (self3\<lparr>ResourceV3Local :=
                       filter (\<lambda>r. local_ID r \<noteq> URN) (ResourceV3Local self3)\<rparr>, True)))"

fun Delete_loop_by_name :: "envelope \<Rightarrow> string list \<Rightarrow> state \<Rightarrow> state" where
  "Delete_loop_by_name content [] self = self"
| "Delete_loop_by_name content (URN # URNs) self =
     (case Delete_attempt URN self of
        (self1, True) \<Rightarrow> log_event (Info_deleted_by content URN) self1
      | (self1, False) \<Rightarrow> Delete_loop_by_name content URNs self1)"

definition Delete_OLD_by_name ::
  "state \<Rightarrow> envelope \<Rightarrow> string \<Rightarrow> dict \<Rightarrow> state \<times> (exn + pyval \<times> string)" where
  "Delete_OLD_by_name self content contype stepconf =
     (Delete_loop_by_name content
        (map (\<lambda>c. [c]) (filter (\<lambda>c. stepconf [c] = None) contype)) self,
      Inl TypeError)"

text \<open>
  \<^verbatim>\<open>Setup(peak_sleep, offpeak_sleep, max_stale)\<close> gets the envelope as \<^verbatim>\<open>peak_sleep\<close>. It sets
  up logging and the search index again as it did when the router started (lines 158 to
  201, of which the state keeps whether a search index is configured; the lines it logs
  about the start of the program are no events of the model), and line 204,
  \<^verbatim>\<open>self.peak_sleep = peak_sleep * 60\<close>, a dictionary times a number, raises TypeError.
\<close>

definition Setup_by_name :: "state \<Rightarrow> state \<times> (exn + pyval \<times> string)" where
  "Setup_by_name self =
     (self\<lparr>ESEARCH := (config self ''ELASTIC_HOSTS'' \<noteq> None)\<rparr>, Inl TypeError)"

text \<open>
  \<^verbatim>\<open>format_GLOBALURN(*args)\<close> takes any number of arguments and starts with
  \<^verbatim>\<open>newargs[0] = newargs[0].rstrip(':')\<close>: the envelope, a dictionary, has no \<^verbatim>\<open>rstrip\<close>, an
  AttributeError. Every other method of the class takes fewer than three arguments, so
  the call raises TypeError; every attribute that holds data is not callable, a
  TypeError too. The attributes are those that \<^verbatim>\<open>__init__\<close>, \<^verbatim>\<open>Setup\<close> and \<^verbatim>\<open>Run\<close> have
  assigned when the first step runs (\<^verbatim>\<open>stdout_path\<close> and \<^verbatim>\<open>stderr_path\<close> in daemon mode
  only) and those every Python 3 object has, none of which can be called with three
  arguments (the list is that of Python 3.11; before it an object has no
  \<^verbatim>\<open>__getstate__\<close>). A name that is no attribute raises AttributeError.
\<close>

definition other_methods :: "string list" where
  "other_methods =
     [''__init__'', ''SaveDaemonStdOut'', ''exit_signal'', ''exit'', ''CATALOGURN_to_URL'',
      ''Get_HTTP'', ''Get_Collections'', ''Analyze_CONTENT'', ''Write_CACHE'', ''Read_CACHE'',
      ''Update_REL'', ''Log_STEP'', ''Run'', ''smart_sleep'']"

definition data_attributes :: "state \<Rightarrow> string list" where
  "data_attributes self =
     [''args'', ''config'', ''pidfile_path'', ''logger'', ''formatter'', ''handler'', ''ESEARCH'',
      ''peak_sleep'', ''offpeak_sleep'', ''max_stale'', ''application'', ''memory'',
      ''Affiliation'', ''DefaultValidity'', ''GLOBUS_NAME_URNMAP'', ''WAREHOUSE_API_PREFIX'',
      ''WAREHOUSE_API_VERSION'', ''WAREHOUSE_CATALOG'', ''HTTP_CACHE'', ''URL_USE_COUNT'',
      ''CATALOGS'', ''STEPS'', ''STATS'', ''PROCESSING_SECONDS'']
     @ (if daemon self then [''stdout_path'', ''stderr_path''] else [])"

definition object_attributes :: "string list" where
  "object_attributes =
     [''__class__'', ''__delattr__'', ''__dict__'', ''__dir__'', ''__doc__'', ''__eq__'',
      ''__format__'', ''__ge__'', ''__getattribute__'', ''__getstate__'', ''__gt__'',
      ''__hash__'', ''__init_subclass__'', ''__le__'', ''__lt__'', ''__module__'',
      ''__ne__'', ''__new__'', ''__reduce__'', ''__reduce_ex__'', ''__repr__'',
      ''__setattr__'', ''__sizeof__'', ''__str__'', ''__subclasshook__'', ''__weakref__'']"

definition call_by_name ::
  "state \<Rightarrow> string \<Rightarrow> envelope \<Rightarrow> string \<Rightarrow> dict \<Rightarrow> state \<times> (exn + pyval \<times> string)" where
  "call_by_name self pa_function content contype stepconf =
     (if pa_function = ''Write_Globus_Collections''
        then Write_Globus_Collections self (map_of content) contype stepconf
      else if pa_function = ''Write_MEMORY''
        then Write_MEMORY_by_name self (map_of content) contype
      else if pa_function = ''Delete_OLD''
        then Delete_OLD_by_name self content contype stepconf
      else if pa_function = ''Setup'' then Setup_by_name self
      else if pa_function = ''format_GLOBALURN'' then (self, Inl AttributeError)
      else if pa_function \<in> set other_methods \<union> set (data_attributes self)
                \<union> set object_attributes
        then (self, Inl TypeError)
      else (self, Inl AttributeError))"

text \<open>
  Lines 583 to 593:
  \<^verbatim>\<open>
  if stepconf['LOCALTYPE'] not in content:
      (rc, message) = (False, 'JSON is missing the \'{}\' element'.format(contype))
      self.logger.error(msg)
  elif stepconf['DSTURL'].scheme == 'file':
      (rc, message) = self.Write_CACHE(stepconf['DSTURL'].path, content)
  elif stepconf['DSTURL'].scheme == 'analyze':
      (rc, message) = self.Analyze_CONTENT(content)
  elif stepconf['DSTURL'].scheme == 'memory':
      (rc, message) = self.Write_MEMORY(content, stepconf['LOCALTYPE'], stepconf['DSTURL'].path)
  elif stepconf['DSTURL'].scheme == 'function':
      (rc, message) = getattr(self, pa_function)(content, stepconf['LOCALTYPE'], stepconf)
  \<close>
  \<^verbatim>\<open>Run\<close> has no variable \<^verbatim>\<open>contype\<close> (and none called \<^verbatim>\<open>msg\<close>), and the module has no such
  global: the first branch raises NameError while it formats its message. When no
  branch is taken, \<^verbatim>\<open>rc\<close> and \<^verbatim>\<open>message\<close> are what the previous step left, if there was one.
\<close>

definition dispatch ::
  "state \<Rightarrow> (pyval \<times> string) option \<Rightarrow> dict \<Rightarrow> url \<Rightarrow> string \<Rightarrow> envelope
     \<Rightarrow> state \<times> (exn + pyval \<times> string)" where
  "dispatch self previous stepconf DSTURL contype content =
     (if map_of content contype = None then (self, Inl NameError)
      else if scheme DSTURL = ''file'' then Write_CACHE self (path DSTURL) content
      else if scheme DSTURL = ''analyze'' then Analyze_CONTENT self content
      else if scheme DSTURL = ''memory''
        then Write_MEMORY self (map_of content) contype (path DSTURL)
      else if scheme DSTURL = ''function''
        then call_by_name self (path DSTURL) content contype stepconf
      else (case previous of None \<Rightarrow> (self, Inl UnboundLocalError) | Some r \<Rightarrow> (self, Inr r)))"

text \<open>
  The identifier of the processing activity (lines 570 to 575), with the file name of
  the router as the application:
  \<^verbatim>\<open>pa_id = '{}:{}:{}:{}->{}'.format(pa_application, pa_function, pa_topic,
       stepconf['SRCURL'].scheme, stepconf['DSTURL'].scheme)\<close>.
\<close>

definition pa_id :: "url \<Rightarrow> url \<Rightarrow> string \<Rightarrow> string" where
  "pa_id SRCURL DSTURL contype =
     ''route_globus_v3.py:'' @ path DSTURL @ '':'' @ contype @ '':'' @ scheme SRCURL
       @ ''->'' @ scheme DSTURL"

text \<open>
  The body of the loop over \<^verbatim>\<open>self.STEPS\<close> (lines 568 to 597), which ends with
  \<^verbatim>\<open>
  if not rc and message == '':  # No errors
      message = 'Executed {} in {:.3f}/seconds'.format(pa_function,
              (datetime.now(timezone.utc) - step_start_utc).total_seconds())
  pa.FinishActivity(rc, message)
  \<close>
  The message is given without the duration. The step returns the \<^verbatim>\<open>rc\<close> and \<^verbatim>\<open>message\<close>
  it leaves to the next one.
\<close>

definition Run_step ::
  "state \<Rightarrow> (pyval \<times> string) option \<Rightarrow> dict \<Rightarrow> state \<times> (exn + pyval \<times> string)" where
  "Run_step self previous stepconf =
     (case step_urls stepconf of
        Inl e \<Rightarrow> (self, Inl e)
      | Inr (SRCURL, DSTURL, contype) \<Rightarrow>
          (case fetch self SRCURL contype of
             (self1, Inl e) \<Rightarrow> (self1, Inl e)
           | (self1, Inr content) \<Rightarrow>
               (case dispatch self1 previous stepconf DSTURL contype content of
                  (self2, Inl e) \<Rightarrow> (self2, Inl e)
                | (self2, Inr (rc, message)) \<Rightarrow>
                    (let message1 = (if \<not> truthy rc \<and> message = []
                                     then ''Executed '' @ path DSTURL else message)
                     in (self2\<lparr>activities := activities self2
                            @ [(pa_id SRCURL DSTURL contype, rc, message1)]\<rparr>,
                         Inr (rc, message1))))))"

fun Run_steps ::
  "state \<Rightarrow> (pyval \<times> string) option \<Rightarrow> dict list
     \<Rightarrow> state \<times> (exn + (pyval \<times> string) option)" where
  "Run_steps self previous [] = (self, Inr previous)"
| "Run_steps self previous (stepconf # others) =
     (case Run_step self previous stepconf of
        (self1, Inl e) \<Rightarrow> (self1, Inl e)
      | (self1, Inr outcome) \<Rightarrow> Run_steps self1 (Some outcome) others)"

text \<open>
  One iteration of the \<^verbatim>\<open>while True\<close> loop of \<^verbatim>\<open>Run\<close>: the counters are reset, the steps
  run in their order, the duration is logged. An exception leaves the loop and the
  method.
\<close>

definition Run_iteration :: "state \<Rightarrow> state \<times> (exn + unit)" where
  "Run_iteration self =
     (case Run_steps (self\<lparr>STATS := Counter\<rparr>) None (STEPS self) of
        (self1, Inl e) \<Rightarrow> (self1, Inl e)
      | (self1, Inr outcome) \<Rightarrow> (log_event Info_iteration self1, Inr ()))"

text \<open>
  Two resolved steps, one that reconciles the collections of the transfer service and
  one that reads a cache file into memory, and a router whose transfer service lists
  the collections \<open>b\<close> and \<open>c\<close>, whose file of extra endpoints is empty and whose cache
  file is not JSON.
\<close>

definition collections_SRCURL :: url where
  "collections_SRCURL = \<lparr>scheme = ''https'', hostname = ''transfer.api.globus.org'',
     path = ''/v0.10'', geturl = ''https://transfer.api.globus.org/v0.10''\<rparr>"

definition collections_DSTURL :: url where
  "collections_DSTURL = \<lparr>scheme = ''function'', hostname = [],
     path = ''Write_Globus_Collections'', geturl = ''function:Write_Globus_Collections''\<rparr>"

definition collections_step :: dict where
  "collections_step = collections_stepconf
     (''SRCURL'' \<mapsto> PUrl collections_SRCURL, ''DSTURL'' \<mapsto> PUrl collections_DSTURL)"

definition cache_step :: dict where
  "cache_step =
     [''LOCALTYPE'' \<mapsto> PStr ''GlobusCollection'',
      ''SRCURL'' \<mapsto> PUrl \<lparr>scheme = ''file'', hostname = [], path = ''/var/cache.json'',
                        geturl = ''file:/var/cache.json''\<rparr>,
      ''DSTURL'' \<mapsto> PUrl \<lparr>scheme = ''memory'', hostname = [], path = ''id'',
                        geturl = ''memory:id''\<rparr>]"

definition run_router :: state where
  "run_router = collections_router\<lparr>
     config := [''GLOBUS_CLIENT_ID'' \<mapsto> PStr ''client'', ''GLOBUS_REFRESH_TOKEN'' \<mapsto> PStr ''token'',
                ''EXTRA_ENDPOINTS_FILE'' \<mapsto> PStr ''/etc/extra_endpoints''],
     collections := Inr [PResponse [(''id'', PStr ''b'')], PResponse [(''id'', PStr ''c'')]],
     files := [''/etc/extra_endpoints'' \<mapsto> \<lparr>file_lines = [], file_json = None\<rparr>,
               ''/var/cache.json'' \<mapsto> \<lparr>file_lines = [''<html>''], file_json = None\<rparr>]\<rparr>"

text \<open>
  For a pipeline whose first step lists the collections and whose second step reads a
  cache file into memory: a cache file that is JSON, and a router without the file of
  extra endpoints its configuration names.
\<close>

definition good_cache :: disk_file where
  "good_cache = \<lparr>file_lines = [], file_json = Some (PList [PDict [(''id'', PStr ''a'')]])\<rparr>"

definition no_extras_router :: state where
  "no_extras_router = run_router\<lparr>files := [''/var/cache.json'' \<mapsto> good_cache]\<rparr>"

text \<open>
  A router before the loop of \<^verbatim>\<open>Setup\<close> over two step configurations that name the same
  catalog, one that analyzes the collections and one that stores them in memory; its
  web answers the \<open>n\<close>-th request with the JSON list \<open>[n]\<close>. \<open>configured_router\<close> is the
  router after the loop.
\<close>

definition transfer_catalog :: dict where
  "transfer_catalog = [''CatalogAPIURL'' \<mapsto> PStr ''https://transfer.api.globus.org/v0.10'',
     ''LOCALTYPE'' \<mapsto> PStr ''GlobusCollection'']"

definition analyze_stepconf :: dict where
  "analyze_stepconf = [''CATALOGURN'' \<mapsto> PStr ''urn:cat'', ''DESTINATION'' \<mapsto> PStr ''analyze:'']"

definition memory_stepconf :: dict where
  "memory_stepconf = [''CATALOGURN'' \<mapsto> PStr ''urn:cat'', ''DESTINATION'' \<mapsto> PStr ''memory:id'']"

definition unconfigured_router :: state where
  "unconfigured_router = run_router\<lparr>CATALOGS := [''urn:cat'' \<mapsto> transfer_catalog],
     web := (\<lambda>request n. Inr (Some (PList [PInt (int n)])))\<rparr>"

definition configured_router :: state where
  "configured_router =
     fst (Setup_steps urlparse_plain unconfigured_router [analyze_stepconf, memory_stepconf])"

section \<open>The diff tool: \<^verbatim>\<open>generate_endpoint_name\<close>\<close>

text \<open>\<^verbatim>\<open>s.split(c, n)\<close> for a one-character separator: at most \<open>n\<close> cuts, from the left.\<close>

fun split_max :: "char \<Rightarrow> nat \<Rightarrow> string \<Rightarrow> string list" where
  "split_max c 0 s = [s]"
| "split_max c (Suc n) s =
     (case dropWhile (\<lambda>x. x \<noteq> c) s of
        [] \<Rightarrow> [s]
      | _ # r \<Rightarrow> takeWhile (\<lambda>x. x \<noteq> c) s # split_max c n r)"

text \<open>
  \<^verbatim>\<open>
  def generate_endpoint_name(endpoint):
      print("ResourceID is %s \n", endpoint['ResourceID'])
      first,second,rest = endpoint['ResourceID'].split(".",2)
      if first == "hpss":
          return first+"-"+second
      if first == "wrangler":
          if second == "iu":
              return first+"-"+second
      return first
  \<close>
  The assignment to three names needs exactly three parts: with fewer, Python raises
  ValueError. A value that is not a string has no \<^verbatim>\<open>split\<close>.
\<close>

definition generate_endpoint_name :: "pyval \<Rightarrow> exn + string" where
  "generate_endpoint_name endpoint =
     (case getitem endpoint ''ResourceID'' of
        Inl e \<Rightarrow> Inl e
      | Inr (PStr rid) \<Rightarrow>
          (case split_max CHR ''.'' 2 rid of
             [first, second, rest] \<Rightarrow>
               if first = ''hpss'' then Inr (first @ ''-'' @ second)
               else if first = ''wrangler'' \<and> second = ''iu'' then Inr (first @ ''-'' @ second)
               else Inr first
           | _ \<Rightarrow> Inl ValueError)
      | Inr _ \<Rightarrow> Inl AttributeError)"

section \<open>The diff tool: the loop of \<^verbatim>\<open>main\<close> over the published endpoints\<close>






























section \<open>Properties of the string built-ins\<close>

lemma rstrip_append_same: "rstrip c (s @ [c]) = rstrip c s"
  by (simp add: rstrip_def)

lemma rstrip_decompose: "\<exists>n. s = rstrip c s @ replicate n c"
proof -
  have "rev s = takeWhile (\<lambda>x. x = c) (rev s) @ dropWhile (\<lambda>x. x = c) (rev s)"
    by simp
  moreover have "takeWhile (\<lambda>x. x = c) (rev s)
      = replicate (length (takeWhile (\<lambda>x. x = c) (rev s))) c"
    by (rule replicate_length_same [symmetric]) (auto dest: set_takeWhileD)
  ultimately have "rev s = replicate (length (takeWhile (\<lambda>x. x = c) (rev s))) c
      @ dropWhile (\<lambda>x. x = c) (rev s)"
    by simp
  then have "rev (rev s) = rev (replicate (length (takeWhile (\<lambda>x. x = c) (rev s))) c
      @ dropWhile (\<lambda>x. x = c) (rev s))"
    by simp
  then have "s = rstrip c s @ replicate (length (takeWhile (\<lambda>x. x = c) (rev s))) c"
    by (simp add: rstrip_def)
  then show ?thesis ..
qed

lemma rstrip_no_trailing: "rstrip c s = [] \<or> last (rstrip c s) \<noteq> c"
proof (cases "dropWhile (\<lambda>x. x = c) (rev s)")
  case Nil
  then show ?thesis by (simp add: rstrip_def)
next
  case (Cons y ys)
  then have "hd (dropWhile (\<lambda>x. x = c) (rev s)) \<noteq> c"
    using hd_dropWhile [of "\<lambda>x. x = c" "rev s"] by simp
  with Cons show ?thesis by (simp add: rstrip_def)
qed

lemma strings_of_map_PStr: "strings_of (map PStr ss) = Inr ss"
  by (induction ss) simp_all

lemma join_values_strings: "join_values sep (map PStr ss) = Inr (join sep ss)"
  by (simp add: join_values_def strings_of_map_PStr)

section \<open>Properties of \<^verbatim>\<open>format_GLOBALURN\<close>\<close>

text \<open>
  C10. For every non-empty list of string arguments, \<open>format_GLOBALURN\<close> returns the
  arguments joined with a colon after the trailing colons of the first argument, and of
  the first argument only, have been removed. So a prefix written with one more trailing
  colon gives the same identifier, whatever the other arguments are.
\<close>

theorem format_GLOBALURN_trailing_colon:
  "format_GLOBALURN (PStr p # map PStr rest) = Inr (join '':'' (rstrip CHR '':'' p # rest))
   \<and> format_GLOBALURN (PStr (p @ '':'') # args) = format_GLOBALURN (PStr p # args)"
proof
  have "format_GLOBALURN (PStr p # map PStr rest)
      = join_values '':'' (map PStr (rstrip CHR '':'' p # rest))"
    by simp
  then show "format_GLOBALURN (PStr p # map PStr rest)
      = Inr (join '':'' (rstrip CHR '':'' p # rest))"
    by (simp only: join_values_strings)
next
  show "format_GLOBALURN (PStr (p @ '':'') # args) = format_GLOBALURN (PStr p # args)"
    using rstrip_append_same [of "CHR '':''" p] by simp
qed

theorem format_GLOBALURN_trailing_colon_witness:
  "format_GLOBALURN [PStr ''urn:ogf:glue2:info.xsede.org:resource:globus:'', PStr ''globusuuid'', PStr ''abc'']
     = Inr ''urn:ogf:glue2:info.xsede.org:resource:globus:globusuuid:abc''
   \<and> format_GLOBALURN [PStr ''urn:ogf:glue2:info.xsede.org:resource:globus'', PStr ''globusuuid'', PStr ''abc'']
     = Inr ''urn:ogf:glue2:info.xsede.org:resource:globus:globusuuid:abc''"
  using format_GLOBALURN_trailing_colon
    [of "''urn:ogf:glue2:info.xsede.org:resource:globus''" "[''globusuuid'', ''abc'']"
        "[PStr ''globusuuid'', PStr ''abc'']"]
  by (simp add: rstrip_def)



section \<open>Properties of \<^verbatim>\<open>Write_MEMORY\<close>\<close>

lemma find_append_first:
  "find P (xs @ ys) = (case find P xs of None \<Rightarrow> find P ys | Some x \<Rightarrow> Some x)"
  by (induction xs) simp_all

lemma memory_store_lookup:
  "memory_store table conkey items k =
     (case find (\<lambda>item. memory_key conkey item = Some k) (rev items) of
        None \<Rightarrow> table k
      | Some item \<Rightarrow> Some item)"
proof (induction items arbitrary: table)
  case Nil
  then show ?case by simp
next
  case (Cons item items)
  show ?case
  proof (cases "memory_key conkey item")
    case None
    then have "memory_store table conkey (item # items) = memory_store table conkey items"
      by (auto simp: memory_key_def split: sum.splits)
    with None Cons.IH [of table] show ?thesis
      by (simp add: find_append_first split: option.splits)
  next
    case (Some k')
    then have step: "memory_store table conkey (item # items)
        = memory_store (table(k' \<mapsto> item)) conkey items"
      by (auto simp: memory_key_def split: sum.splits)
    have ih: "memory_store (table(k' \<mapsto> item)) conkey items k =
       (case find (\<lambda>item. memory_key conkey item = Some k) (rev items) of
          None \<Rightarrow> (table(k' \<mapsto> item)) k
        | Some item \<Rightarrow> Some item)"
      by (rule Cons.IH)
    show ?thesis
      unfolding step ih using Some
      by (simp add: find_append_first split: option.splits)
  qed
qed

text \<open>
  C7 (as amended). For an envelope that holds a list of records under the type tag,
  \<open>Write_MEMORY\<close> returns \<open>(0, '')\<close>; it changes nothing of the router but the table
  \<^verbatim>\<open>self.memory[contype]\<close> (no counter, no log line); and that table then maps a key \<open>k\<close>
  to the last record of the list filed under \<open>k\<close>, or to what it held before when no
  record is filed under \<open>k\<close>. A record is filed under the value of its key field; a
  record without the key field (or one that is no dictionary, or whose key value is
  unhashable) is passed over.
\<close>

theorem Write_MEMORY_stores_keyed_records:
  assumes "content contype = Some (PList items)"
  shows "snd (Write_MEMORY self content contype conkey) = Inr (PInt 0, [])
       \<and> (fst (Write_MEMORY self content contype conkey))\<lparr>memory := memory self\<rparr> = self
       \<and> (\<exists>table. memory (fst (Write_MEMORY self content contype conkey)) contype = Some table
            \<and> table k =
               (case find (\<lambda>item. memory_key conkey item = Some k) (rev items) of
                  Some item \<Rightarrow> Some item
                | None \<Rightarrow> (case memory self contype of None \<Rightarrow> None | Some old \<Rightarrow> old k)))
       \<and> (other \<noteq> contype
            \<longrightarrow> memory (fst (Write_MEMORY self content contype conkey)) other = memory self other)"
  using assms
  by (auto simp: Write_MEMORY_def subscript_def Let_def memory_store_lookup
      split: option.splits)

theorem Write_MEMORY_stores_keyed_records_witness:
  "snd (Write_MEMORY fresh
          [''GlobusCollection'' \<mapsto> PList [PDict [(''id'', PStr ''a''), (''n'', PInt 1)],
                                        PDict [(''n'', PInt 2)],
                                        PDict [(''id'', PStr ''a''), (''n'', PInt 3)]]]
          ''GlobusCollection'' ''id'') = Inr (PInt 0, [])
   \<and> (\<exists>table. memory (fst (Write_MEMORY fresh
          [''GlobusCollection'' \<mapsto> PList [PDict [(''id'', PStr ''a''), (''n'', PInt 1)],
                                        PDict [(''n'', PInt 2)],
                                        PDict [(''id'', PStr ''a''), (''n'', PInt 3)]]]
          ''GlobusCollection'' ''id'')) ''GlobusCollection'' = Some table
        \<and> table (PStr ''a'') = Some (PDict [(''id'', PStr ''a''), (''n'', PInt 3)]))"
  using Write_MEMORY_stores_keyed_records
    [of "[''GlobusCollection'' \<mapsto> PList [PDict [(''id'', PStr ''a''), (''n'', PInt 1)],
                                        PDict [(''n'', PInt 2)],
                                        PDict [(''id'', PStr ''a''), (''n'', PInt 3)]]]"
        "''GlobusCollection''"
        "[PDict [(''id'', PStr ''a''), (''n'', PInt 1)], PDict [(''n'', PInt 2)],
          PDict [(''id'', PStr ''a''), (''n'', PInt 3)]]"
        fresh "''id''" "PStr ''a''" "''GlobusCollection''"]
  by (simp add: memory_key_def)

text \<open>
  The claim as first written has every passed-over record counted as skipped. The
  function counts nothing: after a record without the key field is passed over, the
  counter is the empty one it was before, and nothing is logged.
\<close>

theorem Write_MEMORY_skip_not_counted_counterexample:
  "snd (Write_MEMORY fresh [''GlobusCollection'' \<mapsto> PList [PDict [(''name'', PStr ''x'')]]]
          ''GlobusCollection'' ''id'') = Inr (PInt 0, [])
   \<and> memory (fst (Write_MEMORY fresh [''GlobusCollection'' \<mapsto> PList [PDict [(''name'', PStr ''x'')]]]
          ''GlobusCollection'' ''id'')) ''GlobusCollection'' = Some Map.empty
   \<and> STATS (fst (Write_MEMORY fresh [''GlobusCollection'' \<mapsto> PList [PDict [(''name'', PStr ''x'')]]]
          ''GlobusCollection'' ''id'')) = Counter
   \<and> logger (fst (Write_MEMORY fresh [''GlobusCollection'' \<mapsto> PList [PDict [(''name'', PStr ''x'')]]]
          ''GlobusCollection'' ''id'')) = []"
  by (simp add: Write_MEMORY_def subscript_def fresh_def)

section \<open>Properties of \<^verbatim>\<open>Setup\<close>\<close>

text \<open>
  Every accepted step adds one to the count of its catalog's API URL, so after \<open>Setup\<close>
  the count of a URL is the number of configured steps whose catalog gives it.
\<close>

lemma Setup_step_URL_USE_COUNT:
  assumes "Setup_step urlparse self stepconf = (self', Inr ())"
  shows "\<exists>urn myCAT api k.
           stepconf ''CATALOGURN'' = Some (PStr urn) \<and> CATALOGS self urn = Some myCAT
         \<and> myCAT ''CatalogAPIURL'' = Some api \<and> dict_key api = Inr k
         \<and> URL_USE_COUNT self'
             = (URL_USE_COUNT self)
                 (k \<mapsto> (case URL_USE_COUNT self k of None \<Rightarrow> 1 | Some n \<Rightarrow> n + 1))"
proof -
  from assms obtain urn where urn: "stepconf ''CATALOGURN'' = Some urn"
    by (auto simp: Setup_step_def exit_router_def split: option.splits)
  from assms urn obtain myCAT where cat: "catalog_of (CATALOGS self) urn = Inr (Some myCAT)"
    by (auto simp: Setup_step_def exit_router_def split: option.splits sum.splits)
  then obtain u where u: "urn = PStr u" and catu: "CATALOGS self u = Some myCAT"
    by (cases urn) auto
  from assms urn cat obtain api where api: "myCAT ''CatalogAPIURL'' = Some api"
    by (auto simp: Setup_step_def exit_router_def subscript_def split: option.splits sum.splits)
  from assms urn cat api obtain k where k: "dict_key api = Inr k"
    by (auto simp: Setup_step_def exit_router_def subscript_def split: option.splits sum.splits)
  from assms urn cat api k
  have "URL_USE_COUNT self'
      = (URL_USE_COUNT self)(k \<mapsto> (case URL_USE_COUNT self k of None \<Rightarrow> 1 | Some n \<Rightarrow> n + 1))"
    by (auto simp: Setup_step_def exit_router_def subscript_def Let_def log_event_def
        split: option.splits sum.splits if_splits)
  with u urn catu api k show ?thesis by blast
qed

text \<open>
  So after the loop the count under a key is what it was before plus the number of step
  configurations whose catalog has that key as its \<^verbatim>\<open>CatalogAPIURL\<close>.
\<close>

lemma Setup_step_counts:
  assumes "Setup_step urlparse self stepconf = (self1, Inr ())"
  shows "CATALOGS self1 = CATALOGS self"
    and "(case URL_USE_COUNT self1 k of None \<Rightarrow> 0 | Some n \<Rightarrow> n)
       = (case URL_USE_COUNT self k of None \<Rightarrow> 0 | Some n \<Rightarrow> n)
         + (if source_key (CATALOGS self) stepconf = Some k then 1 else 0)"
proof -
  from Setup_step_URL_USE_COUNT [OF assms] obtain urn myCAT api key where
    urn: "stepconf ''CATALOGURN'' = Some (PStr urn)" and cat: "CATALOGS self urn = Some myCAT"
    and api: "myCAT ''CatalogAPIURL'' = Some api" and key: "dict_key api = Inr key"
    and count: "URL_USE_COUNT self1
      = (URL_USE_COUNT self)
          (key \<mapsto> (case URL_USE_COUNT self key of None \<Rightarrow> 1 | Some n \<Rightarrow> n + 1))"
    by blast
  from urn cat api key have "source_key (CATALOGS self) stepconf = Some key"
    by (simp add: source_key_def subscript_def)
  with count show "(case URL_USE_COUNT self1 k of None \<Rightarrow> 0 | Some n \<Rightarrow> n)
       = (case URL_USE_COUNT self k of None \<Rightarrow> 0 | Some n \<Rightarrow> n)
         + (if source_key (CATALOGS self) stepconf = Some k then 1 else 0)"
    by (auto split: option.splits)
  from assms show "CATALOGS self1 = CATALOGS self"
    by (auto simp: Setup_step_def exit_router_def Let_def log_event_def
        split: option.splits sum.splits if_splits)
qed

lemma Setup_steps_counts:
  "Setup_steps urlparse self steps = (configured, Inr ())
   \<Longrightarrow> (case URL_USE_COUNT configured k of None \<Rightarrow> 0 | Some n \<Rightarrow> n)
     = (case URL_USE_COUNT self k of None \<Rightarrow> 0 | Some n \<Rightarrow> n)
       + steps_using (CATALOGS self) k steps"
proof (induction steps arbitrary: self)
  case Nil
  then show ?case by (simp add: steps_using_def)
next
  case (Cons stepconf steps)
  obtain self1 r where step: "Setup_step urlparse self stepconf = (self1, r)"
    by (cases "Setup_step urlparse self stepconf")
  with Cons.prems have r: "r = Inr ()"
    and rest: "Setup_steps urlparse self1 steps = (configured, Inr ())"
    by (auto split: sum.splits)
  from Setup_step_counts [OF step [unfolded r]] Cons.IH [OF rest]
  show ?case
    by (simp add: steps_using_def)
qed

text \<open>
  C6 (as amended). When \<open>Setup\<close> accepts a step configuration, the resolved step it
  appends to \<^verbatim>\<open>self.STEPS\<close> is the referenced catalog record overlaid with the step's
  fields, the step winning on every key of both, except on three keys that \<open>Setup\<close>
  writes itself: \<open>SOURCEURL\<close> is always the catalog's \<open>CatalogAPIURL\<close> (a \<open>SOURCEURL\<close>
  given in the step configuration is replaced), and \<open>SRCURL\<close> and \<open>DSTURL\<close> are the
  parsed source and destination URLs.
\<close>

theorem Setup_step_merge:
  assumes "Setup_step urlparse self stepconf = (self', Inr ())"
  shows "\<exists>urn myCAT api src destination dst resolved.
           stepconf ''CATALOGURN'' = Some (PStr urn) \<and> CATALOGS self urn = Some myCAT
         \<and> myCAT ''CatalogAPIURL'' = Some api \<and> urlparse api = Inr src
         \<and> stepconf ''DESTINATION'' = Some destination \<and> urlparse destination = Inr dst
         \<and> STEPS self' = STEPS self @ [resolved]
         \<and> resolved ''SOURCEURL'' = Some api
         \<and> resolved ''SRCURL'' = Some (PUrl src)
         \<and> resolved ''DSTURL'' = Some (PUrl dst)
         \<and> (\<forall>key. key \<notin> {''SOURCEURL'', ''SRCURL'', ''DSTURL''}
               \<longrightarrow> resolved key = (myCAT ++ stepconf) key)"
proof -
  from assms obtain urn where urn: "stepconf ''CATALOGURN'' = Some urn"
    by (auto simp: Setup_step_def exit_router_def split: option.splits)
  from assms urn obtain myCAT where cat: "catalog_of (CATALOGS self) urn = Inr (Some myCAT)"
    by (auto simp: Setup_step_def exit_router_def split: option.splits sum.splits)
  then obtain u where u: "urn = PStr u" and catu: "CATALOGS self u = Some myCAT"
    by (cases urn) auto
  from assms urn cat obtain api where api: "myCAT ''CatalogAPIURL'' = Some api"
    by (auto simp: Setup_step_def exit_router_def subscript_def split: option.splits sum.splits)
  from assms urn cat api obtain k where k: "dict_key api = Inr k"
    by (auto simp: Setup_step_def exit_router_def subscript_def split: option.splits sum.splits)
  from assms urn cat api k obtain src where src: "urlparse api = Inr src"
    by (auto simp: Setup_step_def exit_router_def subscript_def Let_def
        split: option.splits sum.splits)
  from assms urn cat api k src obtain destination
    where destination: "stepconf ''DESTINATION'' = Some destination"
    by (auto simp: Setup_step_def exit_router_def subscript_def Let_def
        split: option.splits sum.splits if_splits)
  from assms urn cat api k src destination obtain dst
    where dst: "urlparse destination = Inr dst"
    by (auto simp: Setup_step_def exit_router_def subscript_def Let_def
        split: option.splits sum.splits if_splits)
  define resolved where
    "resolved = myCAT ++ stepconf(''SOURCEURL'' \<mapsto> api, ''SRCURL'' \<mapsto> PUrl src,
        ''DSTURL'' \<mapsto> PUrl dst)"
  from assms urn cat api k src destination dst
  have "STEPS self' = STEPS self @ [resolved]"
    by (auto simp: Setup_step_def exit_router_def subscript_def Let_def resolved_def
        split: option.splits sum.splits if_splits)
  moreover have "resolved ''SOURCEURL'' = Some api" "resolved ''SRCURL'' = Some (PUrl src)"
    "resolved ''DSTURL'' = Some (PUrl dst)"
    by (simp_all add: resolved_def map_add_def)
  moreover have "\<forall>key. key \<notin> {''SOURCEURL'', ''SRCURL'', ''DSTURL''}
      \<longrightarrow> resolved key = (myCAT ++ stepconf) key"
    by (simp add: resolved_def map_add_def)
  ultimately show ?thesis
    using u urn catu api src destination dst by blast
qed

theorem Setup_step_merge_witness:
  "\<exists>resolved. STEPS (fst (Setup_step urlparse_plain example_router example_stepconf)) = [resolved]
   \<and> resolved ''SOURCEURL'' = Some (PStr ''https://catalog.example.org/api'')
   \<and> resolved ''LOCALTYPE'' = Some (PStr ''GlobusCollection'')
   \<and> resolved ''Name'' = Some (PStr ''step name'')"
proof -
  have "snd (Setup_step urlparse_plain example_router example_stepconf) = Inr ()"
    by (simp add: Setup_step_def fresh_def subscript_def urlparse_plain_def
        after_scheme_def Let_def example_router_def example_stepconf_def)
  then have run: "Setup_step urlparse_plain example_router example_stepconf
      = (fst (Setup_step urlparse_plain example_router example_stepconf), Inr ())"
    by (simp add: prod_eq_iff)
  show ?thesis
    using Setup_step_merge [OF run]
  proof (elim exE conjE)
  fix urn myCAT api src destination dst resolved
  assume urn: "example_stepconf ''CATALOGURN'' = Some (PStr urn)"
    and cat: "CATALOGS example_router urn = Some myCAT"
    and api: "myCAT ''CatalogAPIURL'' = Some api"
    and steps: "STEPS (fst (Setup_step urlparse_plain example_router example_stepconf))
       = STEPS example_router @ [resolved]"
    and src: "resolved ''SOURCEURL'' = Some api"
    and rest: "\<forall>key. key \<notin> {''SOURCEURL'', ''SRCURL'', ''DSTURL''}
        \<longrightarrow> resolved key = (myCAT ++ example_stepconf) key"
  from urn have "urn = ''urn:cat''"
    by (simp add: example_stepconf_def)
  with cat have myCAT: "myCAT = [''CatalogAPIURL'' \<mapsto> PStr ''https://catalog.example.org/api'',
                       ''LOCALTYPE'' \<mapsto> PStr ''GlobusCollection'',
                       ''Name'' \<mapsto> PStr ''catalog name'']"
    by (simp add: example_router_def fresh_def)
  from api have "api = PStr ''https://catalog.example.org/api''"
    unfolding myCAT by simp
  with src have 1: "resolved ''SOURCEURL'' = Some (PStr ''https://catalog.example.org/api'')"
    by simp
  from rest have "resolved ''LOCALTYPE'' = (myCAT ++ example_stepconf) ''LOCALTYPE''"
    by simp
  then have 2: "resolved ''LOCALTYPE'' = Some (PStr ''GlobusCollection'')"
    unfolding myCAT by (simp add: example_stepconf_def map_add_def)
  from rest have "resolved ''Name'' = (myCAT ++ example_stepconf) ''Name''"
    by simp
  then have 3: "resolved ''Name'' = Some (PStr ''step name'')"
    unfolding myCAT by (simp add: example_stepconf_def map_add_def)
  from steps have "STEPS (fst (Setup_step urlparse_plain example_router example_stepconf))
       = [resolved]"
    by (simp add: example_router_def fresh_def)
  with 1 2 3 show ?thesis by blast
  qed
qed

text \<open>
  The claim as first written lets a \<open>SOURCEURL\<close> of the step configuration win over the
  catalog's source API URL. \<open>Setup\<close> assigns \<^verbatim>\<open>stepconf['SOURCEURL'] = myCAT['CatalogAPIURL']\<close>
  before it merges: the step's own \<open>SOURCEURL\<close> is gone from the resolved step.
\<close>

theorem Setup_step_SOURCEURL_counterexample:
  "example_stepconf ''SOURCEURL'' = Some (PStr ''https://step.example.org/other'')
   \<and> snd (Setup_step urlparse_plain example_router example_stepconf) = Inr ()
   \<and> length (STEPS (fst (Setup_step urlparse_plain example_router example_stepconf))) = 1
   \<and> hd (STEPS (fst (Setup_step urlparse_plain example_router example_stepconf))) ''SOURCEURL''
     = Some (PStr ''https://catalog.example.org/api'')"
  by (simp add: Setup_step_def fresh_def subscript_def urlparse_plain_def
      after_scheme_def Let_def map_add_def example_router_def example_stepconf_def)

section \<open>Properties of \<^verbatim>\<open>Get_HTTP\<close>\<close>

lemma Get_HTTP_hit:
  "HTTP_CACHE self (contype @ '':'' @ geturl url) = Some cached
   \<Longrightarrow> Get_HTTP self url contype = (self, Inr (Some [contype \<mapsto> cached]))"
  by (simp add: Get_HTTP_def)

lemma Get_HTTP_miss_requests:
  "HTTP_CACHE self (contype @ '':'' @ geturl url) = None
   \<Longrightarrow> requests (fst (Get_HTTP self url contype)) = requests self @ [(hostname url, path url)]"
  by (simp add: Get_HTTP_def Let_def log_event_def split: sum.splits option.splits)

lemma Get_HTTP_miss_content:
  assumes "HTTP_CACHE self (contype @ '':'' @ geturl url) = None"
    and "web self (hostname url, path url) (length (requests self)) = Inr (Some content)"
  shows "snd (Get_HTTP self url contype) = Inr (Some [contype \<mapsto> content])"
    and "HTTP_CACHE (fst (Get_HTTP self url contype))
       = (if 1 < use_count self url
          then (HTTP_CACHE self)(contype @ '':'' @ geturl url \<mapsto> content)
          else HTTP_CACHE self)"
  using assms
  by (simp_all add: Get_HTTP_def Let_def log_event_def use_count_def split: option.splits)

lemma Get_HTTP_miss_failure:
  assumes "HTTP_CACHE self (contype @ '':'' @ geturl url) = None"
    and "\<nexists>content. web self (hostname url, path url) (length (requests self))
            = Inr (Some content)"
  shows "HTTP_CACHE (fst (Get_HTTP self url contype)) = HTTP_CACHE self"
  using assms
  by (auto simp: Get_HTTP_def Let_def log_event_def split: sum.splits option.splits)

text \<open>
  \<^verbatim>\<open>Run\<close> fetches a source that is no file with \<^verbatim>\<open>Get_Collections\<close> (lines 578 to 581),
  which sends its search request whatever the cache holds and leaves the cache as it is.
\<close>

lemma fetch_bypasses_HTTP_CACHE:
  assumes "scheme SRCURL \<noteq> ''file''" and "fetch self SRCURL contype = (self1, Inr content)"
  shows "HTTP_CACHE self1 = HTTP_CACHE self"
    and "\<exists>ids. requests self1
           = requests self @ (''transfer.api.globus.org'', ''endpoint_search'')
               # map (\<lambda>ep. (''transfer.api.globus.org'', ''endpoint/'' @ ep)) ids"
  using assms
  by (auto simp: fetch_def Get_Collections_def Let_def split: sum.splits option.splits)

lemma Get_HTTP_miss_not_JSON:
  assumes "HTTP_CACHE self (contype @ '':'' @ geturl url) = None"
    and "web self (hostname url, path url) (length (requests self)) = Inr None"
  shows "snd (Get_HTTP self url contype) = Inr None"
    and "HTTP_CACHE (fst (Get_HTTP self url contype)) = HTTP_CACHE self"
  using assms by (simp_all add: Get_HTTP_def Let_def log_event_def)

lemma Get_HTTP_miss_error:
  assumes "HTTP_CACHE self (contype @ '':'' @ geturl url) = None"
    and "web self (hostname url, path url) (length (requests self)) = Inl e"
  shows "snd (Get_HTTP self url contype) = Inl e"
    and "HTTP_CACHE (fst (Get_HTTP self url contype)) = HTTP_CACHE self"
  using assms by (simp_all add: Get_HTTP_def Let_def log_event_def)

text \<open>
  C4 (as amended). \<open>Get_HTTP\<close> keeps fetched content under the key made of the type
  tag, a colon and \<^verbatim>\<open>url.geturl()\<close>. With that key in the cache the call changes nothing,
  sends no request and returns the cached content under the type tag. Without it the
  call sends exactly one request. A request that fails raises, and a body that is not
  JSON makes the call return \<^verbatim>\<open>None\<close>: neither is cached. A JSON answer is returned under
  the type tag, and it is put in the cache exactly when \<^verbatim>\<open>URL_USE_COUNT\<close> holds a count
  above one for the string \<^verbatim>\<open>url.geturl()\<close>; then a second call for the same tag and URL
  sends no request and returns the same content. After the loop of \<^verbatim>\<open>Setup\<close>, started
  with no counts, that count is the number of step configurations whose catalog has
  this very string as its \<^verbatim>\<open>CatalogAPIURL\<close>. \<^verbatim>\<open>Run\<close> does not fetch through \<open>Get_HTTP\<close>:
  for a source that is no file, the fetch of a step leaves the cache as it is and
  sends a search request of its own.
\<close>

theorem Get_HTTP_cache_only_if_shared:
  "(HTTP_CACHE self (contype @ '':'' @ geturl url) = Some cached
      \<longrightarrow> Get_HTTP self url contype = (self, Inr (Some [contype \<mapsto> cached])))
   \<and> (HTTP_CACHE self (contype @ '':'' @ geturl url) = None
      \<longrightarrow> requests (fst (Get_HTTP self url contype))
            = requests self @ [(hostname url, path url)]
        \<and> (HTTP_CACHE (fst (Get_HTTP self url contype)) \<noteq> HTTP_CACHE self
            \<longrightarrow> 1 < use_count self url)
        \<and> (web self (hostname url, path url) (length (requests self)) = Inl e
            \<longrightarrow> snd (Get_HTTP self url contype) = Inl e
              \<and> HTTP_CACHE (fst (Get_HTTP self url contype)) = HTTP_CACHE self)
        \<and> (web self (hostname url, path url) (length (requests self)) = Inr None
            \<longrightarrow> snd (Get_HTTP self url contype) = Inr None
              \<and> HTTP_CACHE (fst (Get_HTTP self url contype)) = HTTP_CACHE self)
        \<and> (web self (hostname url, path url) (length (requests self)) = Inr (Some content)
            \<longrightarrow> snd (Get_HTTP self url contype) = Inr (Some [contype \<mapsto> content])
              \<and> HTTP_CACHE (fst (Get_HTTP self url contype))
                  = (if 1 < use_count self url
                     then (HTTP_CACHE self)(contype @ '':'' @ geturl url \<mapsto> content)
                     else HTTP_CACHE self)
              \<and> (1 < use_count self url
                  \<longrightarrow> Get_HTTP (fst (Get_HTTP self url contype)) url contype
                      = (fst (Get_HTTP self url contype), Inr (Some [contype \<mapsto> content])))))
   \<and> (Setup_steps urlparse unconfigured steps = (self, Inr ())
      \<and> URL_USE_COUNT unconfigured = Map.empty
      \<longrightarrow> use_count self url
          = steps_using (CATALOGS unconfigured) (PStr (geturl url)) steps)
   \<and> (scheme url \<noteq> ''file'' \<and> fetch self url contype = (fetched, Inr envelope)
      \<longrightarrow> HTTP_CACHE fetched = HTTP_CACHE self
        \<and> (\<exists>ids. requests fetched
               = requests self @ (''transfer.api.globus.org'', ''endpoint_search'')
                   # map (\<lambda>ep. (''transfer.api.globus.org'', ''endpoint/'' @ ep)) ids))"
proof (intro conjI impI)
  assume "HTTP_CACHE self (contype @ '':'' @ geturl url) = Some cached"
  then show "Get_HTTP self url contype = (self, Inr (Some [contype \<mapsto> cached]))"
    by (rule Get_HTTP_hit)
next
  assume "HTTP_CACHE self (contype @ '':'' @ geturl url) = None"
  then show "requests (fst (Get_HTTP self url contype))
      = requests self @ [(hostname url, path url)]"
    by (rule Get_HTTP_miss_requests)
next
  assume miss: "HTTP_CACHE self (contype @ '':'' @ geturl url) = None"
    and changed: "HTTP_CACHE (fst (Get_HTTP self url contype)) \<noteq> HTTP_CACHE self"
  show "1 < use_count self url"
  proof (cases "\<exists>content. web self (hostname url, path url) (length (requests self))
      = Inr (Some content)")
    case True
    then obtain content where
      "web self (hostname url, path url) (length (requests self)) = Inr (Some content)" ..
    from Get_HTTP_miss_content(2) [OF miss this] changed show ?thesis
      by (simp split: if_splits)
  next
    case False
    from Get_HTTP_miss_failure [OF miss False] changed show ?thesis by simp
  qed
next
  assume miss: "HTTP_CACHE self (contype @ '':'' @ geturl url) = None"
    and answer: "web self (hostname url, path url) (length (requests self)) = Inl e"
  show "snd (Get_HTTP self url contype) = Inl e"
    by (rule Get_HTTP_miss_error(1) [OF miss answer])
  show "HTTP_CACHE (fst (Get_HTTP self url contype)) = HTTP_CACHE self"
    by (rule Get_HTTP_miss_error(2) [OF miss answer])
next
  assume miss: "HTTP_CACHE self (contype @ '':'' @ geturl url) = None"
    and answer: "web self (hostname url, path url) (length (requests self)) = Inr None"
  show "snd (Get_HTTP self url contype) = Inr None"
    by (rule Get_HTTP_miss_not_JSON(1) [OF miss answer])
  show "HTTP_CACHE (fst (Get_HTTP self url contype)) = HTTP_CACHE self"
    by (rule Get_HTTP_miss_not_JSON(2) [OF miss answer])
next
  assume miss: "HTTP_CACHE self (contype @ '':'' @ geturl url) = None"
    and answer: "web self (hostname url, path url) (length (requests self)) = Inr (Some content)"
  show "snd (Get_HTTP self url contype) = Inr (Some [contype \<mapsto> content])"
    by (rule Get_HTTP_miss_content(1) [OF miss answer])
  show cache: "HTTP_CACHE (fst (Get_HTTP self url contype))
      = (if 1 < use_count self url
         then (HTTP_CACHE self)(contype @ '':'' @ geturl url \<mapsto> content)
         else HTTP_CACHE self)"
    by (rule Get_HTTP_miss_content(2) [OF miss answer])
  assume "1 < use_count self url"
  with cache have "HTTP_CACHE (fst (Get_HTTP self url contype))
      (contype @ '':'' @ geturl url) = Some content"
    by simp
  then show "Get_HTTP (fst (Get_HTTP self url contype)) url contype
      = (fst (Get_HTTP self url contype), Inr (Some [contype \<mapsto> content]))"
    by (rule Get_HTTP_hit)
next
  assume "Setup_steps urlparse unconfigured steps = (self, Inr ())
      \<and> URL_USE_COUNT unconfigured = Map.empty"
  then show "use_count self url
      = steps_using (CATALOGS unconfigured) (PStr (geturl url)) steps"
    using Setup_steps_counts [of urlparse unconfigured steps self "PStr (geturl url)"]
    by (simp add: use_count_def)
next
  assume h: "scheme url \<noteq> ''file'' \<and> fetch self url contype = (fetched, Inr envelope)"
  then show "HTTP_CACHE fetched = HTTP_CACHE self"
    using fetch_bypasses_HTTP_CACHE(1) [of url self contype fetched envelope] by simp
  from h show "\<exists>ids. requests fetched
      = requests self @ (''transfer.api.globus.org'', ''endpoint_search'')
          # map (\<lambda>ep. (''transfer.api.globus.org'', ''endpoint/'' @ ep)) ids"
    using fetch_bypasses_HTTP_CACHE(2) [of url self contype fetched envelope] by simp
qed

text \<open>
  On the router configured with two steps that name the same catalog: the count of the
  URL is two, the first call sends a request, gets \<open>[0]\<close> and caches it, and the second
  call returns \<open>[0]\<close> again where a request would have got \<open>[1]\<close>; the fetch of a step
  leaves the cache empty.
\<close>

theorem Get_HTTP_cache_only_if_shared_witness:
  "HTTP_CACHE configured_router (''GlobusCollection'' @ '':'' @ geturl collections_SRCURL) = None
   \<and> use_count configured_router collections_SRCURL = 2
   \<and> steps_using (CATALOGS unconfigured_router) (PStr (geturl collections_SRCURL))
        [analyze_stepconf, memory_stepconf] = 2
   \<and> snd (Get_HTTP configured_router collections_SRCURL ''GlobusCollection'')
     = Inr (Some [''GlobusCollection'' \<mapsto> PList [PInt 0]])
   \<and> requests (fst (Get_HTTP configured_router collections_SRCURL ''GlobusCollection''))
     = requests configured_router @ [(hostname collections_SRCURL, path collections_SRCURL)]
   \<and> Get_HTTP (fst (Get_HTTP configured_router collections_SRCURL ''GlobusCollection''))
         collections_SRCURL ''GlobusCollection''
     = (fst (Get_HTTP configured_router collections_SRCURL ''GlobusCollection''),
        Inr (Some [''GlobusCollection'' \<mapsto> PList [PInt 0]]))
   \<and> HTTP_CACHE (fst (fetch configured_router collections_SRCURL ''GlobusCollection''))
     = HTTP_CACHE configured_router
   \<and> requests (fst (fetch configured_router collections_SRCURL ''GlobusCollection''))
     = [(''transfer.api.globus.org'', ''endpoint_search'')]"
proof -
  let ?key = "''GlobusCollection'' @ '':'' @ geturl collections_SRCURL"
  let ?envelope = "[(''GlobusCollection'',
      PList [PResponse [(''id'', PStr ''b'')], PResponse [(''id'', PStr ''c'')]])]"
  have miss: "HTTP_CACHE configured_router ?key = None"
    by code_simp
  have answer: "web configured_router (hostname collections_SRCURL, path collections_SRCURL)
      (length (requests configured_router)) = Inr (Some (PList [PInt 0]))"
    by code_simp
  have counted: "steps_using (CATALOGS unconfigured_router) (PStr (geturl collections_SRCURL))
      [analyze_stepconf, memory_stepconf] = 2"
    by code_simp
  have "snd (Setup_steps urlparse_plain unconfigured_router [analyze_stepconf, memory_stepconf])
      = Inr ()"
    by code_simp
  then have looped: "Setup_steps urlparse_plain unconfigured_router
      [analyze_stepconf, memory_stepconf] = (configured_router, Inr ())"
    by (simp add: configured_router_def prod_eq_iff)
  have none: "URL_USE_COUNT unconfigured_router = Map.empty"
    by (simp add: unconfigured_router_def run_router_def collections_router_def fresh_def)
  have source: "scheme collections_SRCURL \<noteq> ''file''"
    by code_simp
  have "snd (fetch configured_router collections_SRCURL ''GlobusCollection'') = Inr ?envelope"
    by code_simp
  then have fetched: "fetch configured_router collections_SRCURL ''GlobusCollection''
      = (fst (fetch configured_router collections_SRCURL ''GlobusCollection''), Inr ?envelope)"
    by (simp add: prod_eq_iff)
  have sent: "requests (fst (fetch configured_router collections_SRCURL ''GlobusCollection''))
      = [(''transfer.api.globus.org'', ''endpoint_search'')]"
    by code_simp
  note inst = Get_HTTP_cache_only_if_shared
      [of configured_router "''GlobusCollection''" collections_SRCURL PNone IOError
          "PList [PInt 0]" urlparse_plain unconfigured_router
          "[analyze_stepconf, memory_stepconf]"
          "fst (fetch configured_router collections_SRCURL ''GlobusCollection'')" ?envelope]
  from inst looped none counted
  have count: "use_count configured_router collections_SRCURL = 2"
    by simp
  from inst miss answer count
  have first: "snd (Get_HTTP configured_router collections_SRCURL ''GlobusCollection'')
      = Inr (Some [''GlobusCollection'' \<mapsto> PList [PInt 0]])"
    and requested: "requests (fst (Get_HTTP configured_router collections_SRCURL
        ''GlobusCollection''))
      = requests configured_router @ [(hostname collections_SRCURL, path collections_SRCURL)]"
    and second: "Get_HTTP (fst (Get_HTTP configured_router collections_SRCURL
        ''GlobusCollection'')) collections_SRCURL ''GlobusCollection''
      = (fst (Get_HTTP configured_router collections_SRCURL ''GlobusCollection''),
         Inr (Some [''GlobusCollection'' \<mapsto> PList [PInt 0]]))"
    by simp_all
  from inst source fetched
  have bypass: "HTTP_CACHE (fst (fetch configured_router collections_SRCURL
      ''GlobusCollection'')) = HTTP_CACHE configured_router"
    by blast
  from miss count counted first requested second bypass sent show ?thesis
    by blast
qed

text \<open>
  The claim as first written concludes that within an iteration a URL shared by
  several steps is fetched once. \<^verbatim>\<open>Setup\<close> counts two steps for the URL of the transfer
  service, both with the type tag \<open>GlobusCollection\<close>; the iteration runs both steps to
  their end, sends two search requests and leaves the cache empty. And \<open>Get_HTTP\<close>
  itself, called for one shared URL under two type tags, sends two requests: the key
  holds the tag, and on a web whose answer changes the two calls get different content.
\<close>

theorem Run_iteration_shared_url_counterexample:
  "snd (Setup_steps urlparse_plain unconfigured_router [analyze_stepconf, memory_stepconf])
     = Inr ()
   \<and> URL_USE_COUNT configured_router (PStr ''https://transfer.api.globus.org/v0.10'') = Some 2
   \<and> map (\<lambda>stepconf. (stepconf ''SRCURL'', stepconf ''LOCALTYPE'')) (STEPS configured_router)
     = [(Some (PUrl collections_SRCURL), Some (PStr ''GlobusCollection'')),
        (Some (PUrl collections_SRCURL), Some (PStr ''GlobusCollection''))]
   \<and> snd (Run_iteration configured_router) = Inr ()
   \<and> activities (fst (Run_iteration configured_router))
     = [(''route_globus_v3.py::GlobusCollection:https->analyze'', PInt 0, ''Executed ''),
        (''route_globus_v3.py:id:GlobusCollection:https->memory'', PInt 0, ''Executed id'')]
   \<and> requests (fst (Run_iteration configured_router))
     = [(''transfer.api.globus.org'', ''endpoint_search''),
        (''transfer.api.globus.org'', ''endpoint_search'')]
   \<and> HTTP_CACHE (fst (Run_iteration configured_router))
        ''GlobusCollection:https://transfer.api.globus.org/v0.10'' = None
   \<and> use_count shared_router shared_url = 2
   \<and> snd (Get_HTTP shared_router shared_url ''Collections'')
     = Inr (Some [''Collections'' \<mapsto> PList [PInt 0]])
   \<and> snd (Get_HTTP (fst (Get_HTTP shared_router shared_url ''Collections''))
         shared_url ''Endpoints'')
     = Inr (Some [''Endpoints'' \<mapsto> PList [PInt 1]])
   \<and> requests (fst (Get_HTTP (fst (Get_HTTP shared_router shared_url ''Collections''))
         shared_url ''Endpoints''))
     = [(''info.example.org'', ''/list''), (''info.example.org'', ''/list'')]"
proof -
  have run: "snd (Setup_steps urlparse_plain unconfigured_router
        [analyze_stepconf, memory_stepconf]) = Inr ()
   \<and> URL_USE_COUNT configured_router (PStr ''https://transfer.api.globus.org/v0.10'') = Some 2
   \<and> map (\<lambda>stepconf. (stepconf ''SRCURL'', stepconf ''LOCALTYPE'')) (STEPS configured_router)
     = [(Some (PUrl collections_SRCURL), Some (PStr ''GlobusCollection'')),
        (Some (PUrl collections_SRCURL), Some (PStr ''GlobusCollection''))]
   \<and> snd (Run_iteration configured_router) = Inr ()
   \<and> activities (fst (Run_iteration configured_router))
     = [(''route_globus_v3.py::GlobusCollection:https->analyze'', PInt 0, ''Executed ''),
        (''route_globus_v3.py:id:GlobusCollection:https->memory'', PInt 0, ''Executed id'')]
   \<and> requests (fst (Run_iteration configured_router))
     = [(''transfer.api.globus.org'', ''endpoint_search''),
        (''transfer.api.globus.org'', ''endpoint_search'')]
   \<and> HTTP_CACHE (fst (Run_iteration configured_router))
        ''GlobusCollection:https://transfer.api.globus.org/v0.10'' = None"
    by code_simp
  have tags: "use_count shared_router shared_url = 2
   \<and> snd (Get_HTTP shared_router shared_url ''Collections'')
     = Inr (Some [''Collections'' \<mapsto> PList [PInt 0]])
   \<and> snd (Get_HTTP (fst (Get_HTTP shared_router shared_url ''Collections''))
         shared_url ''Endpoints'')
     = Inr (Some [''Endpoints'' \<mapsto> PList [PInt 1]])
   \<and> requests (fst (Get_HTTP (fst (Get_HTTP shared_router shared_url ''Collections''))
         shared_url ''Endpoints''))
     = [(''info.example.org'', ''/list''), (''info.example.org'', ''/list'')]"
    by (simp add: Get_HTTP_def shared_router_def shared_url_def fresh_def use_count_def
        log_event_def Let_def)
  from run tags show ?thesis by blast
qed

section \<open>Properties of \<^verbatim>\<open>Delete_OLD\<close>\<close>

lemma Delete_one_ESEARCH [simp]: "ESEARCH (Delete_one who URN self) = ESEARCH self"
  by (simp add: Delete_one_def Let_def log_event_def count_up_def)

lemma Delete_one_Relation:
  "ResourceV3Relation (Delete_one who URN self)
     = filter (\<lambda>r. FirstResourceID r \<noteq> URN) (ResourceV3Relation self)"
  by (simp add: Delete_one_def Let_def log_event_def count_up_def)

lemma Delete_one_Resource:
  "ResourceV3 (Delete_one who URN self)
     = filter (\<lambda>r. resource_ID r \<noteq> URN) (ResourceV3 self)"
proof (cases "URN \<in> resource_ID ` set (ResourceV3 self)")
  case True
  then show ?thesis
    by (simp add: Delete_one_def Let_def log_event_def count_up_def)
next
  case False
  then have "filter (\<lambda>r. resource_ID r \<noteq> URN) (ResourceV3 self) = ResourceV3 self"
    by (auto simp: filter_id_conv)
  with False show ?thesis
    by (simp add: Delete_one_def Let_def log_event_def count_up_def)
qed

lemma Delete_one_Index:
  "ResourceV3Index (Delete_one who URN self)
     = (if ESEARCH self then filter (\<lambda>i. i \<noteq> URN) (ResourceV3Index self)
        else ResourceV3Index self)"
proof (cases "URN \<in> set (ResourceV3Index self)")
  case True
  then show ?thesis
    by (simp add: Delete_one_def Let_def log_event_def count_up_def removeAll_filter_not_eq
        cong: filter_cong)
      (metis (mono_tags, lifting) filter_cong)
next
  case False
  then have "filter (\<lambda>i. i \<noteq> URN) (ResourceV3Index self) = ResourceV3Index self"
    by (auto simp: filter_id_conv)
  with False show ?thesis
    by (simp add: Delete_one_def Let_def log_event_def count_up_def)
qed

lemma Delete_one_Local:
  "ResourceV3Local (Delete_one who URN self)
     = (if URN \<in> resource_ID ` set (ResourceV3 self)
        then filter (\<lambda>r. local_ID r \<noteq> URN) (ResourceV3Local self)
        else ResourceV3Local self)"
proof (cases "URN \<in> local_ID ` set (ResourceV3Local self)")
  case True
  then show ?thesis
    by (simp add: Delete_one_def Let_def log_event_def count_up_def)
next
  case False
  then have "filter (\<lambda>r. local_ID r \<noteq> URN) (ResourceV3Local self) = ResourceV3Local self"
    by (auto simp: filter_id_conv)
  with False show ?thesis
    by (simp add: Delete_one_def Let_def log_event_def count_up_def)
qed

lemma Delete_one_logger_mono: "set (logger self) \<subseteq> set (logger (Delete_one who URN self))"
  by (auto simp: Delete_one_def Let_def log_event_def count_up_def)

lemma Delete_one_logs:
  "ESEARCH self \<Longrightarrow> URN \<notin> set (ResourceV3Index self)
     \<Longrightarrow> Error_deleting_Elastic NotFoundError URN \<in> set (logger (Delete_one who URN self))"
  "URN \<notin> resource_ID ` set (ResourceV3 self) \<or> URN \<notin> local_ID ` set (ResourceV3Local self)
     \<Longrightarrow> Error_deleting_ID DoesNotExist URN \<in> set (logger (Delete_one who URN self))"
  by (auto simp: Delete_one_def Let_def log_event_def count_up_def)

lemma Delete_loop_ESEARCH [simp]: "ESEARCH (Delete_loop who URNs self) = ESEARCH self"
  by (induction URNs arbitrary: self) simp_all

lemma Delete_loop_Relation:
  "ResourceV3Relation (Delete_loop who URNs self)
     = filter (\<lambda>r. FirstResourceID r \<notin> set URNs) (ResourceV3Relation self)"
proof (induction URNs arbitrary: self)
  case Nil
  then show ?case by simp
next
  case (Cons URN URNs)
  show ?case
    by (auto simp: Cons.IH Delete_one_Relation intro!: filter_cong)
qed

lemma Delete_loop_Resource:
  "ResourceV3 (Delete_loop who URNs self)
     = filter (\<lambda>r. resource_ID r \<notin> set URNs) (ResourceV3 self)"
proof (induction URNs arbitrary: self)
  case Nil
  then show ?case by simp
next
  case (Cons URN URNs)
  show ?case
    by (auto simp: Cons.IH Delete_one_Resource intro!: filter_cong)
qed

lemma Delete_loop_Index:
  "ResourceV3Index (Delete_loop who URNs self)
     = (if ESEARCH self then filter (\<lambda>i. i \<notin> set URNs) (ResourceV3Index self)
        else ResourceV3Index self)"
proof (induction URNs arbitrary: self)
  case Nil
  then show ?case by simp
next
  case (Cons URN URNs)
  show ?case
    by (auto simp: Cons.IH Delete_one_Index intro!: filter_cong)
qed

lemma Delete_loop_Local:
  "ResourceV3Local (Delete_loop who URNs self)
     = filter (\<lambda>r. \<not> (local_ID r \<in> set URNs
                      \<and> local_ID r \<in> resource_ID ` set (ResourceV3 self)))
         (ResourceV3Local self)"
proof (induction URNs arbitrary: self)
  case Nil
  then show ?case by simp
next
  case (Cons URN URNs)
  show ?case
    by (auto simp: Cons.IH Delete_one_Local Delete_one_Resource intro!: filter_cong)
qed

lemma Delete_loop_logger_mono: "set (logger self) \<subseteq> set (logger (Delete_loop who URNs self))"
proof (induction URNs arbitrary: self)
  case Nil
  then show ?case by simp
next
  case (Cons URN URNs)
  show ?case
    using Delete_one_logger_mono [of self who URN] Cons.IH [of "Delete_one who URN self"]
    by auto
qed

lemma Delete_loop_logs_Elastic:
  "ESEARCH self \<Longrightarrow> URN \<in> set URNs \<Longrightarrow> URN \<notin> set (ResourceV3Index self)
     \<Longrightarrow> Error_deleting_Elastic NotFoundError URN \<in> set (logger (Delete_loop who URNs self))"
proof (induction URNs arbitrary: self)
  case Nil
  then show ?case by simp
next
  case (Cons u URNs)
  show ?case
  proof (cases "URN = u")
    case True
    with Cons.prems Delete_one_logs(1) [of self URN who]
      Delete_loop_logger_mono [of "Delete_one who u self" who URNs]
    show ?thesis by auto
  next
    case False
    with Cons.prems have "URN \<in> set URNs" by simp
    moreover from Cons.prems have "URN \<notin> set (ResourceV3Index (Delete_one who u self))"
      by (simp add: Delete_one_Index)
    ultimately show ?thesis
      using Cons.IH [of "Delete_one who u self"] Cons.prems(1) by simp
  qed
qed

lemma Delete_loop_logs_ID:
  "URN \<in> set URNs
     \<Longrightarrow> URN \<notin> resource_ID ` set (ResourceV3 self) \<or> URN \<notin> local_ID ` set (ResourceV3Local self)
     \<Longrightarrow> Error_deleting_ID DoesNotExist URN \<in> set (logger (Delete_loop who URNs self))"
proof (induction URNs arbitrary: self)
  case Nil
  then show ?case by simp
next
  case (Cons u URNs)
  show ?case
  proof (cases "URN = u")
    case True
    with Cons.prems(2) Delete_one_logs(2) [of URN self who]
      Delete_loop_logger_mono [of "Delete_one who u self" who URNs]
    show ?thesis by auto
  next
    case False
    with Cons.prems have "URN \<in> set URNs" by simp
    moreover from Cons.prems(2)
    have "URN \<notin> resource_ID ` set (ResourceV3 (Delete_one who u self))
        \<or> URN \<notin> local_ID ` set (ResourceV3Local (Delete_one who u self))"
      by (auto simp: Delete_one_Resource Delete_one_Local)
    ultimately show ?thesis
      using Cons.IH [of "Delete_one who u self"] by simp
  qed
qed

text \<open>
  C1 (as amended). After \<open>Delete_OLD\<close> has run with the keys \<open>cur\<close> and \<open>new\<close>, the stale
  identifiers being those of \<open>cur\<close> that are not in \<open>new\<close>: the relation table has lost
  exactly the rows whose first party is stale; the \<open>ResourceV3\<close> table exactly the rows of
  stale identifiers; the search index, when one is configured, exactly the stale
  identifiers; and the \<open>ResourceV3Local\<close> table exactly the rows of those stale
  identifiers that had a \<open>ResourceV3\<close> row. Nothing else is deleted, so no identifier of
  \<open>new\<close> is. For a stale identifier without a \<open>ResourceV3\<close> row the sweep of that
  identifier stops there: its \<open>ResourceV3Local\<close> row stays. Every stale identifier whose
  \<open>ResourceV3\<close> or \<open>ResourceV3Local\<close> row is missing, and every one that is missing from a
  configured index, has an error line of its own in the log, and the other stale
  identifiers are swept all the same.
\<close>

theorem Delete_OLD_sweep:
  "ResourceV3Relation (Delete_OLD who cur new self)
     = filter (\<lambda>r. FirstResourceID r \<notin> set cur - set new) (ResourceV3Relation self)
   \<and> ResourceV3 (Delete_OLD who cur new self)
     = filter (\<lambda>r. resource_ID r \<notin> set cur - set new) (ResourceV3 self)
   \<and> ResourceV3Index (Delete_OLD who cur new self)
     = (if ESEARCH self then filter (\<lambda>i. i \<notin> set cur - set new) (ResourceV3Index self)
        else ResourceV3Index self)
   \<and> ResourceV3Local (Delete_OLD who cur new self)
     = filter (\<lambda>r. \<not> (local_ID r \<in> set cur - set new
                      \<and> local_ID r \<in> resource_ID ` set (ResourceV3 self)))
         (ResourceV3Local self)
   \<and> (\<forall>URN \<in> set cur - set new.
         (URN \<notin> resource_ID ` set (ResourceV3 self) \<or> URN \<notin> local_ID ` set (ResourceV3Local self)
            \<longrightarrow> Error_deleting_ID DoesNotExist URN \<in> set (logger (Delete_OLD who cur new self)))
       \<and> (ESEARCH self \<and> URN \<notin> set (ResourceV3Index self)
            \<longrightarrow> Error_deleting_Elastic NotFoundError URN
                  \<in> set (logger (Delete_OLD who cur new self))))"
proof -
  have stale: "set (filter (\<lambda>id. id \<notin> set new) cur) = set cur - set new"
    by auto
  show ?thesis
    unfolding Delete_OLD_def
    using Delete_loop_logs_ID [of _ "filter (\<lambda>id. id \<notin> set new) cur" self who]
      Delete_loop_logs_Elastic [of self _ "filter (\<lambda>id. id \<notin> set new) cur" who]
    by (simp add: Delete_loop_Relation Delete_loop_Resource Delete_loop_Index
        Delete_loop_Local stale)
qed

theorem Delete_OLD_sweep_witness:
  "ResourceV3Relation (Delete_OLD ''step'' [''urn:A'', ''urn:B''] [''urn:B'', ''urn:C''] swept_router)
     = [relation_example ''urn:B'' ''urn:X'']
   \<and> ResourceV3 (Delete_OLD ''step'' [''urn:A'', ''urn:B''] [''urn:B'', ''urn:C''] swept_router)
     = [resource_example ''urn:B'']
   \<and> ResourceV3Index (Delete_OLD ''step'' [''urn:A'', ''urn:B''] [''urn:B'', ''urn:C''] swept_router)
     = [''urn:B'']
   \<and> ResourceV3Local (Delete_OLD ''step'' [''urn:A'', ''urn:B''] [''urn:B'', ''urn:C''] swept_router)
     = [local_example ''urn:B'']"
  using Delete_OLD_sweep [of "''step''" "[''urn:A'', ''urn:B'']" "[''urn:B'', ''urn:C'']" swept_router]
  by (simp add: swept_router_def fresh_def local_example_def resource_example_def
      relation_example_def)

text \<open>
  The claim as first written has the \<open>ResourceV3Local\<close> row of every stale identifier
  deleted. A stale identifier with a \<open>ResourceV3Local\<close> row and no \<open>ResourceV3\<close> row keeps
  its row: \<^verbatim>\<open>ResourceV3.objects.get(pk = URN)\<close> raises before the third deletion is tried.
\<close>

theorem Delete_OLD_local_kept_counterexample:
  "ResourceV3Local
     (Delete_OLD ''step'' [''urn:A''] [] (fresh\<lparr>ResourceV3Local := [local_example ''urn:A'']\<rparr>))
     = [local_example ''urn:A'']
   \<and> logger
     (Delete_OLD ''step'' [''urn:A''] [] (fresh\<lparr>ResourceV3Local := [local_example ''urn:A'']\<rparr>))
     = [Error_deleting_ID DoesNotExist ''urn:A'']"
  by (simp add: Delete_OLD_def Delete_one_def fresh_def log_event_def local_example_def)

section \<open>Properties of \<^verbatim>\<open>Write_Globus_Collections\<close>\<close>

lemma resource_block_raises:
  "resource_block self item urn native = (self, Inl AttributeError)"
proof (cases "Format_Description (case item of PResponse kvs \<Rightarrow> map_of kvs ''description''
                                 | PDict kvs \<Rightarrow> map_of kvs ''description'' | _ \<Rightarrow> None)")
  case (Inl e)
  then have "e = AttributeError"
    by (elim Format_Description.elims) simp_all
  with Inl show ?thesis
    by (simp add: resource_block_def)
next
  case (Inr u)
  then show ?thesis
    by (simp add: resource_block_def str_attribute_def str_methods_def)
qed

lemma local_block_STATS:
  "local_block self stepconf item urn native = (self1, r) \<Longrightarrow> STATS self1 = STATS self"
  by (auto simp: local_block_def split: sum.splits)

lemma name_urnmap_STATS: "name_urnmap self item urn = Inr self1 \<Longrightarrow> STATS self1 = STATS self"
  by (auto simp: name_urnmap_def split: sum.splits if_splits)

lemma Write_records_first_record:
  "STATS (fst (Write_records self stepconf contype new (item # items))) = STATS self
   \<and> (\<forall>keys. snd (Write_records self stepconf contype new (item # items)) \<noteq> Done keys)"
  by (auto simp: resource_block_raises log_event_def
      dest!: name_urnmap_STATS local_block_STATS split: sum.splits prod.splits)

lemma Delete_one_STATS_other:
  "key \<noteq> who @ ''.Delete'' \<Longrightarrow> STATS (Delete_one who URN self) key = STATS self key"
  by (simp add: Delete_one_def Let_def log_event_def count_up_def)

lemma Delete_loop_STATS_other:
  "key \<noteq> who @ ''.Delete'' \<Longrightarrow> STATS (Delete_loop who URNs self) key = STATS self key"
  by (induction URNs arbitrary: self) (simp_all add: Delete_one_STATS_other)

text \<open>
  Whatever the warehouse, the envelope and the step configuration are, the method
  leaves the counter of updates where it was: the line that counts an update comes
  after the second \<^verbatim>\<open>try\<close> block, and that block always raises.
\<close>

lemma Write_Globus_Collections_never_counts_update:
  "STATS (fst (Write_Globus_Collections self content contype stepconf)) (me @ ''.Update'')
     = STATS self (me @ ''.Update'')"
proof -
  have empty: "STATS (Log_STEP me (Delete_OLD me cur [] self)) (me @ ''.Update'')
      = STATS self (me @ ''.Update'')" for cur
    by (simp add: Log_STEP_def log_event_def Delete_OLD_def Delete_loop_STATS_other)
  have records: "STATS (fst (case Write_records self stepconf contype [] items of
          (self1, Raise e) \<Rightarrow> (self1, Inl e)
        | (self1, Return rc msg) \<Rightarrow> (self1, Inr (rc, msg))
        | (self1, Done new) \<Rightarrow>
            (Log_STEP me (Delete_OLD me cur new self1), Inr (PInt 0, []))))
        (me @ ''.Update'') = STATS self (me @ ''.Update'')" for items cur
  proof (cases items)
    case Nil
    then show ?thesis by (simp add: empty)
  next
    case (Cons item others)
    with Write_records_first_record [of self stepconf contype "[]" item others]
    show ?thesis
      by (cases "Write_records self stepconf contype [] (item # others)")
        (auto split: loop_end.splits)
  qed
  show ?thesis
    unfolding Write_Globus_Collections_def Let_def
    by (simp add: records split: sum.splits pyval.splits)
qed

text \<open>
  C2. The run of the claim: the warehouse holds the records \<open>a\<close> and \<open>b\<close>, the envelope
  brings \<open>b\<close> and \<open>c\<close>. The claim expects the warehouse to end with \<open>b\<close> and \<open>c\<close>, two
  updates and one deletion counted. The method saves the local row of \<open>b\<close>, raises in
  the second \<^verbatim>\<open>try\<close> block at line 524, logs the error and returns \<^verbatim>\<open>(False, msg)\<close>: the
  warehouse still holds \<open>a\<close> and \<open>b\<close>, \<open>c\<close> was never reached, and both counters are 0.
\<close>

theorem Write_Globus_Collections_scenario:
  "snd (Write_Globus_Collections collections_router collections_content ''GlobusCollection''
          collections_stepconf)
     = Inr (PBool False, ''AttributeError saving resource ID=urn:glo:globusuuid:b: '')
   \<and> map local_ID (ResourceV3Local (fst (Write_Globus_Collections collections_router
          collections_content ''GlobusCollection'' collections_stepconf)))
     = [''urn:glo:globusuuid:a'', ''urn:glo:globusuuid:b'']
   \<and> map resource_ID (ResourceV3 (fst (Write_Globus_Collections collections_router
          collections_content ''GlobusCollection'' collections_stepconf)))
     = [''urn:glo:globusuuid:a'', ''urn:glo:globusuuid:b'']
   \<and> STATS (fst (Write_Globus_Collections collections_router collections_content
          ''GlobusCollection'' collections_stepconf)) (me @ ''.Update'') = 0
   \<and> STATS (fst (Write_Globus_Collections collections_router collections_content
          ''GlobusCollection'' collections_stepconf)) (me @ ''.Delete'') = 0
   \<and> logger (fst (Write_Globus_Collections collections_router collections_content
          ''GlobusCollection'' collections_stepconf))
     = [Error_saving_resource AttributeError ''urn:glo:globusuuid:b'']"
  by code_simp

section \<open>Properties of an iteration of \<^verbatim>\<open>Run\<close>\<close>

text \<open>
  Both fetchers put the content under the tag they are called with, so the envelope
  that \<open>dispatch\<close> gets from \<open>fetch\<close> always holds the step's type tag. Were it missing,
  the first branch of the dispatch would raise NameError.
\<close>

lemma fetch_has_tag:
  "fetch self SRCURL contype = (self1, Inr content) \<Longrightarrow> map_of content contype \<noteq> None"
  by (auto simp: fetch_def Read_CACHE_def Get_Collections_def exit_router_def Let_def
      split: if_splits option.splits sum.splits)

lemma dispatch_missing_tag:
  "map_of content contype = None
   \<Longrightarrow> dispatch self previous stepconf DSTURL contype content = (self, Inl NameError)"
  by (simp add: dispatch_def)

text \<open>
  Called by name, \<^verbatim>\<open>Write_MEMORY\<close> stores nothing and returns \<^verbatim>\<open>(0, '')\<close>: the step counts
  as executed.
\<close>

lemma dispatch_Write_MEMORY_by_name:
  "map_of content contype = Some (PList items) \<Longrightarrow> scheme DSTURL = ''function''
   \<Longrightarrow> path DSTURL = ''Write_MEMORY''
   \<Longrightarrow> dispatch self previous stepconf DSTURL contype content
     = (self\<lparr>memory := (memory self)
           (contype \<mapsto> (case memory self contype of None \<Rightarrow> Map.empty | Some t \<Rightarrow> t))\<rparr>,
        Inr (PInt 0, []))"
  by (simp add: dispatch_def call_by_name_def Write_MEMORY_by_name_def subscript_def Let_def)

text \<open>
  When the handler of a step returns, whatever \<^verbatim>\<open>rc\<close> and message it returns (a failure
  is \<^verbatim>\<open>(False, msg)\<close>), the step records the outcome as its processing activity and the
  loop goes on to the remaining steps from the state the handler left. A cache file
  that is not JSON makes \<^verbatim>\<open>Read_CACHE\<close> log the error and exit with status 1.
\<close>

lemma Run_steps_returned_failure:
  "(step_urls stepconf = Inr (SRCURL, DSTURL, contype)
      \<and> snd (fetch self SRCURL contype) = Inr content
      \<and> snd (dispatch (fst (fetch self SRCURL contype)) previous stepconf DSTURL contype content)
          = Inr (rc, message)
    \<longrightarrow> Run_steps self previous (stepconf # others)
        = Run_steps
            ((fst (dispatch (fst (fetch self SRCURL contype)) previous stepconf DSTURL contype
                     content))
               \<lparr>activities :=
                  activities (fst (dispatch (fst (fetch self SRCURL contype)) previous stepconf
                                     DSTURL contype content))
                  @ [(pa_id SRCURL DSTURL contype, rc,
                      if \<not> truthy rc \<and> message = [] then ''Executed '' @ path DSTURL
                      else message)]\<rparr>)
            (Some (rc, if \<not> truthy rc \<and> message = [] then ''Executed '' @ path DSTURL
                       else message))
            others)
   \<and> (step_urls stepconf = Inr (SRCURL, DSTURL, contype) \<and> scheme SRCURL = ''file''
      \<and> files self (path SRCURL) = Some f \<and> file_json f = None
    \<longrightarrow> Run_steps self previous (stepconf # others)
        = (log_event (Error_exiting 1) (log_event (Error_parsing_file (path SRCURL)) self),
           Inl (SystemExit 1)))"
  by (auto simp: Run_step_def Let_def fetch_def Read_CACHE_def exit_router_def
      split: prod.splits sum.splits)


text \<open>\<^verbatim>\<open>Run\<close> has no \<^verbatim>\<open>try\<close>: an exception raised in a step ends the loop over the steps.\<close>

lemma Run_steps_raise:
  "Run_step self previous stepconf = (self1, Inl e)
   \<Longrightarrow> Run_steps self previous (stepconf # others) = (self1, Inl e)"
  by simp

text \<open>
  C5. The step that lacks its type tag is to fail alone, logged and counted, with the
  loop going on; no failure of one step is to keep the remaining steps from running.
  The branch written for the missing tag (lines 583 to 585) reads \<^verbatim>\<open>contype\<close> and \<^verbatim>\<open>msg\<close>,
  which \<^verbatim>\<open>Run\<close> does not define: on an envelope without the tag the dispatch raises
  NameError. \<^verbatim>\<open>Run\<close> does not get such an envelope from its two fetchers
  (\<open>fetch_has_tag\<close>). What it does get is a router without the file of extra endpoints:
  \<^verbatim>\<open>Get_Collections\<close> passes over the file that cannot be opened and then returns a
  variable it has not assigned. The first step sends its request and raises
  UnboundLocalError; the iteration ends with no activity recorded, although the
  second step alone, which reads the cache file into memory, runs to its end.
\<close>

theorem Run_iteration_step_failure_aborts:
  "snd (dispatch no_extras_router None collections_step collections_DSTURL ''GlobusCollection''
          [(''Endpoint'', PList [])])
     = Inl NameError
   \<and> snd (Run_iteration (no_extras_router\<lparr>STEPS := [collections_step, cache_step]\<rparr>))
     = Inl UnboundLocalError
   \<and> requests (fst (Run_iteration (no_extras_router\<lparr>STEPS := [collections_step, cache_step]\<rparr>)))
     = [(''transfer.api.globus.org'', ''endpoint_search'')]
   \<and> activities (fst (Run_iteration (no_extras_router\<lparr>STEPS := [collections_step, cache_step]\<rparr>)))
     = []
   \<and> snd (Run_iteration (no_extras_router\<lparr>STEPS := [cache_step]\<rparr>)) = Inr ()
   \<and> activities (fst (Run_iteration (no_extras_router\<lparr>STEPS := [cache_step]\<rparr>)))
     = [(''route_globus_v3.py:id:GlobusCollection:file->memory'', PInt 0, ''Executed id'')]"
  by code_simp

text \<open>
  A returned failure does not end the loop: \<^verbatim>\<open>Write_Globus_Collections\<close> returns
  \<^verbatim>\<open>(False, msg)\<close> in both steps, and both activities are recorded.
\<close>

lemma Run_steps_returned_failure_twice:
  "activities (fst (Run_steps run_router None [collections_step, collections_step]))
     = [(''route_globus_v3.py:Write_Globus_Collections:GlobusCollection:https->function'',
         PBool False, ''AttributeError saving resource ID=urn:glo:globusuuid:b: ''),
        (''route_globus_v3.py:Write_Globus_Collections:GlobusCollection:https->function'',
         PBool False, ''AttributeError saving resource ID=urn:glo:globusuuid:b: '')]"
  by code_simp

text \<open>
  A cache file that is not JSON: the process exits, no activity is recorded, and the
  second step never runs.
\<close>

lemma Run_iteration_malformed_cache_file:
  "snd (Run_iteration (run_router\<lparr>STEPS := [cache_step, collections_step]\<rparr>))
     = Inl (SystemExit 1)
   \<and> activities (fst (Run_iteration (run_router\<lparr>STEPS := [cache_step, collections_step]\<rparr>)))
     = []
   \<and> logger (fst (Run_iteration (run_router\<lparr>STEPS := [cache_step, collections_step]\<rparr>)))
     = [Error_parsing_file ''/var/cache.json'', Error_exiting 1]"
  by code_simp

section \<open>Properties of \<^verbatim>\<open>generate_endpoint_name\<close>\<close>

lemma split_max_cut:
  "c \<notin> set a \<Longrightarrow> split_max c (Suc n) (a @ c # r) = a # split_max c n r"
proof -
  assume a: "c \<notin> set a"
  then have "dropWhile (\<lambda>x. x \<noteq> c) (a @ c # r) = c # r"
    by (subst dropWhile_append2) auto
  moreover from a have "takeWhile (\<lambda>x. x \<noteq> c) (a @ c # r) = a"
    by (subst takeWhile_append2) auto
  ultimately show ?thesis by simp
qed

lemma split_max_no_separator: "c \<notin> set s \<Longrightarrow> split_max c n s = [s]"
proof (cases n)
  case 0
  then show ?thesis by simp
next
  case (Suc m)
  assume "c \<notin> set s"
  then have "dropWhile (\<lambda>x. x \<noteq> c) s = []"
    by (auto simp: dropWhile_eq_Nil_conv)
  with Suc show ?thesis by (simp del: dropWhile_eq_Nil_conv)
qed

lemma split_max_length: "length (split_max c n s) = Suc (min n (count_list s c))"
proof (induction n arbitrary: s)
  case 0
  then show ?case by simp
next
  case (Suc n)
  show ?case
  proof (cases "c \<in> set s")
    case False
    then show ?thesis
      by (simp add: split_max_no_separator count_list_0_iff del: split_max.simps)
  next
    case True
    then obtain a r where s: "s = a @ c # r" and a: "c \<notin> set a"
      by (meson split_list_first)
    have "count_list a c = 0"
      using a by (simp add: count_list_0_iff)
    then have "count_list s c = Suc (count_list r c)"
      by (simp add: s)
    then show ?thesis
      using Suc.IH [of r] a by (simp add: s split_max_cut del: split_max.simps)
  qed
qed

text \<open>
  C9 (as amended). For a published endpoint record whose ResourceID is \<open>a.b.r\<close>, with no
  dot in \<open>a\<close> and none in \<open>b\<close>, \<open>generate_endpoint_name\<close> returns \<open>a-b\<close> when \<open>a\<close> is
  \<open>hpss\<close>, \<open>a-b\<close> when \<open>a\<close> is \<open>wrangler\<close> and \<open>b\<close> is \<open>iu\<close>, and \<open>a\<close> otherwise. For a
  ResourceID with fewer than two dots it raises ValueError.
\<close>

theorem generate_endpoint_name_three_parts:
  assumes "getitem endpoint ''ResourceID'' = Inr (PStr rid)"
  shows "(rid = a @ ''.'' @ b @ ''.'' @ r \<and> CHR ''.'' \<notin> set a \<and> CHR ''.'' \<notin> set b
            \<longrightarrow> generate_endpoint_name endpoint
                = Inr (if a = ''hpss'' then a @ ''-'' @ b
                       else if a = ''wrangler'' \<and> b = ''iu'' then a @ ''-'' @ b
                       else a))
       \<and> (count_list rid CHR ''.'' < 2 \<longrightarrow> generate_endpoint_name endpoint = Inl ValueError)"
proof (intro conjI impI)
  assume h: "rid = a @ ''.'' @ b @ ''.'' @ r \<and> CHR ''.'' \<notin> set a \<and> CHR ''.'' \<notin> set b"
  have "split_max CHR ''.'' 2 (a @ CHR ''.'' # b @ CHR ''.'' # r) = [a, b, r]"
    using h split_max_cut [of "CHR ''.''" a 1 "b @ CHR ''.'' # r"]
      split_max_cut [of "CHR ''.''" b 0 r]
    by (simp add: numeral_2_eq_2 del: split_max.simps(2))
  with h assms show "generate_endpoint_name endpoint
      = Inr (if a = ''hpss'' then a @ ''-'' @ b
             else if a = ''wrangler'' \<and> b = ''iu'' then a @ ''-'' @ b
             else a)"
    by (simp add: generate_endpoint_name_def)
next
  assume "count_list rid CHR ''.'' < 2"
  then have "length (split_max CHR ''.'' 2 rid) < 3"
    by (simp add: split_max_length)
  then have "\<nexists>x y z. split_max CHR ''.'' 2 rid = [x, y, z]"
    by auto
  with assms show "generate_endpoint_name endpoint = Inl ValueError"
    by (auto simp: generate_endpoint_name_def split: list.splits)
qed

theorem generate_endpoint_name_three_parts_witness:
  "generate_endpoint_name (PDict [(''ID'', PStr ''7''), (''ResourceID'', PStr ''hpss.psc.xsede.org'')])
     = Inr ''hpss-psc''
   \<and> generate_endpoint_name (PDict [(''ResourceID'', PStr ''stampede'')]) = Inl ValueError"
  using generate_endpoint_name_three_parts
      [of "PDict [(''ID'', PStr ''7''), (''ResourceID'', PStr ''hpss.psc.xsede.org'')]"
          "''hpss.psc.xsede.org''" "''hpss''" "''psc''" "''xsede.org''"]
    generate_endpoint_name_three_parts
      [of "PDict [(''ResourceID'', PStr ''stampede'')]" "''stampede''"]
  by simp

text \<open>
  The claim as first written promises a name for every record. With the ResourceID
  \<open>hpss.psc\<close> it promises \<open>hpss-psc\<close>; the function raises ValueError.
\<close>

theorem generate_endpoint_name_two_parts_counterexample:
  "generate_endpoint_name (PDict [(''ResourceID'', PStr ''hpss.psc'')]) = Inl ValueError
   \<and> generate_endpoint_name (PDict [(''ResourceID'', PStr ''hpss.psc'')]) \<noteq> Inr ''hpss-psc''"
  by (simp add: generate_endpoint_name_def numeral_2_eq_2)

section \<open>Properties of the loop of \<^verbatim>\<open>main\<close>\<close>


























end
